theory Spec2Isabelle
  imports Main "HOL-Library.AList"
begin

section \<open>The matching engine (src/services/matching/engine.ts)\<close>

text \<open>
  The engine keeps two sublevels of one database, \<open>out\<close> and \<open>in\<close>, both keyed by the
  confirmation key \<open>messageHash:chain\<close>. The fields of the messages the engine reads are
  \<open>messageHash\<close>, \<open>recipient\<close> and \<open>chainId\<close>; the remaining payload is carried along
  untouched and is kept here as one opaque string.
\<close>

record XcmMessageSent =
  sent_chainId :: string
  sent_messageHash :: string
  sent_recipient :: string
  sent_payload :: string

record XcmMessageReceived =
  recv_chainId :: string
  recv_messageHash :: string
  recv_payload :: string

text \<open>\<open>new XcmMessageNotify(outMsg, inMsg)\<close>: the only notification this engine builds.\<close>

datatype XcmMessageNotify = XcmMessageNotify XcmMessageSent XcmMessageReceived

text \<open>The two \<open>log.info\<close> lines of the engine, with the chain and the key they print.\<close>

datatype engine_log = MATCHED string string | STORED_FOR_MATCHING string string

text \<open>
  The state of a \<open>MatchingEngine\<close>: the two sublevels, the notifications emitted on the
  \<open>Notification\<close> event so far (oldest first) and the log. Every handler body runs under
  \<open>mutex.runExclusive\<close>, so a handler is one atomic step on this state. A sublevel
  \<open>get\<close> of a missing key rejects, which is the \<open>catch\<close> branch; \<open>del\<close> is issued
  before \<open>#notify\<close> and is modelled as done when the handler returns.
\<close>

record MatchingEngine =
  outbound :: "string \<rightharpoonup> XcmMessageSent"
  inbound :: "string \<rightharpoonup> XcmMessageReceived"
  emitted :: "XcmMessageNotify list"
  engine_logs :: "engine_log list"

definition new_MatchingEngine :: MatchingEngine where
  "new_MatchingEngine =
     \<lparr>outbound = Map.empty, inbound = Map.empty, emitted = [], engine_logs = []\<rparr>"

text \<open>The confirmation key, the template string \<open>`${messageHash}:${chain}`\<close>.\<close>

definition confirmation_key :: "string \<Rightarrow> string \<Rightarrow> string" where
  "confirmation_key h c = h @ '':'' @ c"

definition notify :: "XcmMessageSent \<Rightarrow> XcmMessageReceived \<Rightarrow> MatchingEngine \<Rightarrow> MatchingEngine" where
  "notify outMsg inMsg e = e\<lparr>emitted := emitted e @ [XcmMessageNotify outMsg inMsg]\<rparr>"

definition onOutboundMessage :: "XcmMessageSent \<Rightarrow> MatchingEngine \<Rightarrow> MatchingEngine" where
  "onOutboundMessage outMsg e =
     (let ck = confirmation_key (sent_messageHash outMsg) (sent_recipient outMsg) in
      case inbound e ck of
        Some inMsg \<Rightarrow>
          notify outMsg inMsg
            (e\<lparr>engine_logs := engine_logs e @ [MATCHED (sent_chainId outMsg) ck],
               inbound := (inbound e)(ck := None)\<rparr>)
      | None \<Rightarrow>
          e\<lparr>engine_logs := engine_logs e @ [STORED_FOR_MATCHING (sent_chainId outMsg) ck],
            outbound := (outbound e)(ck \<mapsto> outMsg)\<rparr>)"

definition onInboundMessage :: "XcmMessageReceived \<Rightarrow> MatchingEngine \<Rightarrow> MatchingEngine" where
  "onInboundMessage inMsg e =
     (let ck = confirmation_key (recv_messageHash inMsg) (recv_chainId inMsg) in
      case outbound e ck of
        Some outMsg \<Rightarrow>
          notify outMsg inMsg
            (e\<lparr>engine_logs := engine_logs e @ [MATCHED (recv_chainId inMsg) ck],
               outbound := (outbound e)(ck := None)\<rparr>)
      | None \<Rightarrow>
          e\<lparr>engine_logs := engine_logs e @ [STORED_FOR_MATCHING (recv_chainId inMsg) ck],
            inbound := (inbound e)(ck \<mapsto> inMsg)\<rparr>)"

section \<open>Selection criteria (src/services/monitoring/ops/criteria.ts)\<close>

text \<open>
  The records a control query is tested against are plain JSON objects; the criteria name
  their fields by dotted paths.
\<close>

datatype json = JString string | JObject "(string \<times> json) list" | JArray "json list"

text \<open>
  \<open>Criteria\<close> of the SDK, as far as this repository builds them: the empty object
  \<open>{}\<close>, \<open>{ $or: [...] }\<close> and \<open>{ path: { $in: [...] } }\<close>.
\<close>

datatype Criteria = MatchAny | Or "Criteria list" | In string "string list"

text \<open>
  Modelled from the spec: \<open>ControlQuery.value.test\<close> belongs to the SDK
  (\<open>@sodazone/ocelloids\<close>), which is not part of the sources. The spec describes a control
  query as a boolean combination of field tests (\<open>$in\<close>, \<open>$or\<close>) over structured
  records, testing membership of the named fields. A dotted path is followed through
  objects and, element by element, through arrays; \<open>$in\<close> holds when a value reached
  (or an element of an array reached) is one of the listed strings; \<open>$or\<close> holds when
  one of its operands does; the empty criteria holds of every record.
\<close>

fun split_path :: "string \<Rightarrow> string list" where
  "split_path [] = [[]]"
| "split_path (c # cs) =
     (if c = CHR ''.'' then [] # split_path cs
      else (case split_path cs of [] \<Rightarrow> [[c]] | w # ws \<Rightarrow> (c # w) # ws))"

fun resolve :: "string list \<Rightarrow> json \<Rightarrow> json list"
  and resolve_field :: "string \<Rightarrow> string list \<Rightarrow> (string \<times> json) list \<Rightarrow> json list" where
  "resolve [] v = [v]"
| "resolve (k # ks) (JString s) = []"
| "resolve (k # ks) (JObject fs) = resolve_field k ks fs"
| "resolve (k # ks) (JArray vs) = concat (map (resolve (k # ks)) vs)"
| "resolve_field k ks [] = []"
| "resolve_field k ks (f # fs) =
     (if fst f = k then resolve ks (snd f) else resolve_field k ks fs)"

fun in_matches :: "string list \<Rightarrow> json \<Rightarrow> bool" where
  "in_matches xs (JString s) = (s \<in> set xs)"
| "in_matches xs (JArray vs) =
     list_ex (\<lambda>v. case v of JString s \<Rightarrow> s \<in> set xs | _ \<Rightarrow> False) vs"
| "in_matches xs (JObject fs) = False"

fun test :: "Criteria \<Rightarrow> json \<Rightarrow> bool" where
  "test MatchAny d = True"
| "test (Or cs) d = list_ex (\<lambda>c. test c d) cs"
| "test (In p xs) d = list_ex (in_matches xs) (resolve (split_path p) d)"

text \<open>The \<open>senders\<close> of a subscription: \<open>string[] | '*'\<close>.\<close>

datatype senders = SendersAny | SendersList "string list"

definition sendersCriteria :: "senders \<Rightarrow> Criteria" where
  "sendersCriteria s =
     (case s of
        SendersList xs \<Rightarrow>
          Or [In ''extrinsic.signer.id'' xs,
              In ''extrinsic.signer.publicKey'' xs,
              In ''extrinsic.extraSigners.id'' xs,
              In ''extrinsic.extraSigners.publicKey'' xs]
      | SendersAny \<Rightarrow> MatchAny)"

definition messageCriteria :: "string list \<Rightarrow> Criteria" where
  "messageCriteria recipients = In ''recipient'' recipients"

text \<open>
  What \<open>matchSenders\<close> reads of an extrinsic: of the signer and of every extra signer, the
  fields of \<open>toPrimitive()\<close> (an \<open>Id\<close> address gives the one field \<open>id\<close>) and the
  public key \<open>value.toHex()\<close>; of an extra signer also its \<open>type\<close>.
\<close>

record Address =
  toPrimitive :: "(string \<times> json) list"
  toHex :: string

record ExtraSigner =
  signer_type :: string
  address :: Address

record ExtrinsicWithId =
  signer :: Address
  extraSigners :: "ExtraSigner list"

text \<open>\<open>Object.assign({}, target, source)\<close>: the fields of \<open>source\<close> override.\<close>

definition object_assign ::
  "(string \<times> json) list \<Rightarrow> (string \<times> json) list \<Rightarrow> (string \<times> json) list" where
  "object_assign target source = fold (\<lambda>(k, v). AList.update k v) source target"

definition matchSenders :: "Criteria \<Rightarrow> ExtrinsicWithId option \<Rightarrow> bool" where
  "matchSenders query xt =
     (case xt of
        None \<Rightarrow> False
      | Some x \<Rightarrow>
          test query
            (JObject [(''extrinsic'', JObject
               [(''signer'',
                   JObject (object_assign (toPrimitive (signer x))
                     [(''publicKey'', JString (toHex (signer x)))])),
                (''extraSigners'',
                   JArray (map (\<lambda>s. JObject (object_assign (toPrimitive (address s))
                       [(''type'', JString (signer_type s)),
                        (''publicKey'', JString (toHex (address s)))]))
                     (extraSigners x)))])]))"

definition matchMessage :: "Criteria \<Rightarrow> string \<Rightarrow> bool" where
  "matchMessage query recipient = test query (JObject [(''recipient'', JString recipient)])"

text \<open>An address in \<open>Id\<close> form: account \<open>a\<close> with public key \<open>pk\<close>.\<close>

definition accountId :: "string \<Rightarrow> string \<Rightarrow> Address" where
  "accountId a pk = \<lparr>toPrimitive = [(''id'', JString a)], toHex = pk\<rparr>"

section \<open>The switchboard (packages/server/src/services/monitoring/switchboard.ts)\<close>

datatype XcmNotificationType = Sent | Received | Relayed | Timeout | Hop

text \<open>The \<open>events\<close> of a subscription: absent, \<open>'*'\<close> or a list of notification types.\<close>

datatype events = EventsUndefined | EventsAny | EventsList "XcmNotificationType list"

record Subscription =
  sub_id :: string
  origin :: string
  senders :: senders
  destinations :: "string list"
  ephemeral :: bool
  events :: events

text \<open>
  Of a notification the fan-out reads \<open>subscriptionId\<close>, \<open>type\<close> and \<open>sender\<close>; the
  rest is carried to the notifier untouched. The sender is what \<open>matchSenders\<close> takes.
\<close>

record XcmNotifyMessage =
  subscriptionId :: string
  msg_type :: XcmNotificationType
  sender :: "ExtrinsicWithId option"
  waypoint :: string

text \<open>
  An \<open>RxSubscriptionWithId\<close> pairs a chain with the handle of a live reactive
  subscription. Handles are numbered in the order \<open>.subscribe(...)\<close> is called; the
  switchboard state keeps the set of handles not yet unsubscribed.
\<close>

record RxSubscriptionWithId =
  chainId :: string
  sub :: nat

record RxSubscriptionHandler =
  descriptor :: Subscription
  sendersControl :: Criteria
  messageControl :: Criteria
  originSubs :: "RxSubscriptionWithId list"
  destinationSubs :: "RxSubscriptionWithId list"
  relaySub :: "RxSubscriptionWithId option"

datatype SubscribeErrorCodes = TOO_MANY_SUBSCRIBERS

text \<open>
  What a method can throw: the \<open>SubscribeError\<close> of the switchboard, a plain \<open>Error\<close>
  (the switchboard's own, or one a collaborator throws) and the \<open>TypeError\<close> JavaScript
  raises when a property of \<open>undefined\<close> is destructured.
\<close>

datatype error =
    SubscribeError SubscribeErrorCodes string
  | Error string
  | TypeError string

datatype level = Debug | Info | Warn | Err

text \<open>A log line: level, format string and the arguments that identify it.\<close>

datatype log_entry = Log level string "string list"

text \<open>
  The state of a \<open>Switchboard\<close> with what its collaborators hold. \<open>db\<close> is the
  subscription store, \<open>cleared\<close> the calls of \<open>engine.clearPendingStates\<close>, \<open>notified\<close>
  the calls of \<open>notifier.notify\<close>, \<open>active\<close> the live reactive subscriptions. The
  collaborators are not part of the sources; how they answer is a parameter:
  \<open>isRelay\<close> and \<open>relayIds\<close> are the ingress consumer's, \<open>hasBlocks c\<close> says that
  \<open>ingress.finalizedBlocks(c)\<close> returns a stream rather than throws, \<open>hasRegistry c\<close>
  the same of \<open>ingress.getRegistry(c)\<close>, \<open>db_rejects\<close> that the store rejects
  \<open>insert\<close> and \<open>remove\<close>, \<open>engine_rejects\<close> that \<open>clearPendingStates\<close> rejects.
  The error callbacks of the observers, with their retry timers, and \<open>start\<close> and
  \<open>stop\<close> are not modelled.
\<close>

record Switchboard =
  subs :: "string \<rightharpoonup> RxSubscriptionHandler"
  stats_ephemeral :: int
  stats_persistent :: int
  maxEphemeral :: int
  maxPersistent :: int
  db :: "string \<rightharpoonup> Subscription"
  active :: "nat set"
  next_sub :: nat
  cleared :: "string list"
  notified :: "(Subscription \<times> XcmNotifyMessage) list"
  logs :: "log_entry list"
  isRelay :: "string \<Rightarrow> bool"
  relayIds :: "string list"
  hasBlocks :: "string \<Rightarrow> bool"
  hasRegistry :: "string \<Rightarrow> bool"
  db_rejects :: bool
  engine_rejects :: bool

record SwitchboardOptions =
  subscriptionMaxPersistent :: "int option"
  subscriptionMaxEphemeral :: "int option"

record Ingress =
  ingress_isRelay :: "string \<Rightarrow> bool"
  ingress_relayIds :: "string list"
  ingress_hasBlocks :: "string \<Rightarrow> bool"
  ingress_hasRegistry :: "string \<Rightarrow> bool"

text \<open>The constructor: the caps default to 10000 (\<open>options.x ?? 10_000\<close>).\<close>

definition new_Switchboard :: "Ingress \<Rightarrow> SwitchboardOptions \<Rightarrow> Switchboard" where
  "new_Switchboard ctx options =
     \<lparr>subs = Map.empty,
      stats_ephemeral = 0,
      stats_persistent = 0,
      maxEphemeral = (case subscriptionMaxEphemeral options of Some n \<Rightarrow> n | None \<Rightarrow> 10000),
      maxPersistent = (case subscriptionMaxPersistent options of Some n \<Rightarrow> n | None \<Rightarrow> 10000),
      db = Map.empty,
      active = {},
      next_sub = 0,
      cleared = [],
      notified = [],
      logs = [],
      isRelay = ingress_isRelay ctx,
      relayIds = ingress_relayIds ctx,
      hasBlocks = ingress_hasBlocks ctx,
      hasRegistry = ingress_hasRegistry ctx,
      db_rejects = False,
      engine_rejects = False\<rparr>"

definition log :: "level \<Rightarrow> string \<Rightarrow> string list \<Rightarrow> Switchboard \<Rightarrow> Switchboard" where
  "log l fmt args s = s\<lparr>logs := logs s @ [Log l fmt args]\<rparr>"

text \<open>
  Modelled from the spec: the subscription store (\<open>SubsStore\<close>,
  \<open>persistence/subs.js\<close>) is not among the sources. The spec gives its contract as a
  keyed CRUD interface, strongly consistent for one writer, with \<open>insert\<close> and
  \<open>remove(id)\<close>: an accepted \<open>insert\<close> stores the descriptor under its id, an
  accepted \<open>remove\<close> deletes what is stored under the id.
\<close>

definition db_insert :: "Subscription \<Rightarrow> Switchboard \<Rightarrow> Switchboard" where
  "db_insert qs s = s\<lparr>db := (db s)(sub_id qs \<mapsto> qs)\<rparr>"

definition db_remove :: "string \<Rightarrow> Switchboard \<Rightarrow> Switchboard" where
  "db_remove i s = s\<lparr>db := (db s)(i := None)\<rparr>"

text \<open>
  Modelled from the spec: the switchboard is built on the \<open>MatchingEngine\<close> of
  \<open>monitoring/matching.js\<close>, which is not among the sources. Of its operations the
  methods below call \<open>clearPendingStates(id)\<close>, which the spec lists among the four
  operations of the engine; the call is recorded.
\<close>

definition clearPendingStates :: "string \<Rightarrow> Switchboard \<Rightarrow> Switchboard" where
  "clearPendingStates i s = s\<lparr>cleared := cleared s @ [i]\<rparr>"

text \<open>\<open>observable.subscribe(observer)\<close> and \<open>sub.unsubscribe()\<close>.\<close>

definition rx_subscribe :: "Switchboard \<Rightarrow> nat \<times> Switchboard" where
  "rx_subscribe s =
     (next_sub s, s\<lparr>active := insert (next_sub s) (active s), next_sub := Suc (next_sub s)\<rparr>)"

definition rx_unsubscribe :: "nat \<Rightarrow> Switchboard \<Rightarrow> Switchboard" where
  "rx_unsubscribe h s = s\<lparr>active := active s - {h}\<rparr>"

text \<open>\<open>xs.forEach(({ sub }) => sub.unsubscribe())\<close>.\<close>

definition unsubscribe_each :: "RxSubscriptionWithId list \<Rightarrow> Switchboard \<Rightarrow> Switchboard" where
  "unsubscribe_each xs s = fold (\<lambda>x. rx_unsubscribe (sub x)) xs s"

definition shouldMonitorRelay :: "Subscription \<Rightarrow> Switchboard \<Rightarrow> bool" where
  "shouldMonitorRelay qs s \<longleftrightarrow>
     (events qs = EventsUndefined \<or> events qs = EventsAny \<or>
        (case events qs of EventsList es \<Rightarrow> Relayed \<in> set es | _ \<Rightarrow> False)) \<and>
     \<not> isRelay s (origin qs) \<and>
     list_ex (\<lambda>d. \<not> isRelay s d) (destinations qs)"

text \<open>
  The loop of \<open>#monitorDestinations\<close> over the destinations, with the observers pushed so
  far. A destination the handler already observes is skipped. \<open>#sharedBlockEvents\<close>
  asks the ingress consumer for the finalized blocks of the chain, which throws for a
  chain it has no consumer for; the \<open>catch\<close> unsubscribes what was pushed and rethrows.
\<close>

fun monitorDestinations_loop ::
  "string \<Rightarrow> string \<Rightarrow> string list \<Rightarrow> RxSubscriptionWithId list \<Rightarrow> Switchboard \<Rightarrow>
     (error + RxSubscriptionWithId list) \<times> Switchboard" where
  "monitorDestinations_loop i originId [] acc s = (Inr acc, s)"
| "monitorDestinations_loop i originId (dest # rest) acc s =
     (if (case subs s i of
            Some h \<Rightarrow> list_ex (\<lambda>x. chainId x = dest) (destinationSubs h)
          | None \<Rightarrow> False)
      then monitorDestinations_loop i originId rest acc s
      else
        let s1 = (if isRelay s dest then log Info ''[%s] subscribe inbound UMP (%s)'' [dest, i] s
                  else if isRelay s originId
                    then log Info ''[%s] subscribe inbound DMP (%s)'' [dest, i] s
                  else log Info ''[%s] subscribe inbound HRMP (%s)'' [dest, i] s)
        in if \<not> hasBlocks s1 dest
           then (Inl (Error (''Missing distributed consumer for chain='' @ dest)),
                 unsubscribe_each acc s1)
           else (case rx_subscribe s1 of
                   (h, s2) \<Rightarrow>
                     monitorDestinations_loop i originId rest
                       (acc @ [\<lparr>chainId = dest, sub = h\<rparr>]) s2))"

definition monitorDestinations ::
  "Subscription \<Rightarrow> Switchboard \<Rightarrow> (error + RxSubscriptionWithId list) \<times> Switchboard" where
  "monitorDestinations qs s =
     monitorDestinations_loop (sub_id qs) (origin qs) (destinations qs) [] s"

text \<open>
  \<open>#monitorOrigins\<close>: two observers on the origin chain (DMP and DMP by event for a
  relay chain, HRMP and UMP otherwise) and the two controls. Both observers start from
  \<open>ingress.getRegistry(origin)\<close>; when that throws nothing has been pushed yet.
\<close>

definition monitorOrigins ::
  "Subscription \<Rightarrow> Switchboard \<Rightarrow>
     (error + RxSubscriptionWithId list \<times> Criteria \<times> Criteria) \<times> Switchboard" where
  "monitorOrigins qs s =
     (let i = sub_id qs; c = origin qs in
      if (case subs s i of
            Some h \<Rightarrow> list_ex (\<lambda>x. chainId x = c) (originSubs h)
          | None \<Rightarrow> False)
      then (Inl (Error (''Fatal: duplicated origin monitor '' @ i @ '' for chain '' @ c)), s)
      else
        let sendersCtl = sendersCriteria (senders qs);
            messageCtl = messageCriteria (destinations qs);
            s0 = (if isRelay s c then log Info ''[%s] subscribe outbound DMP (%s)'' [c, i] s
                  else log Info ''[%s] subscribe outbound HRMP (%s)'' [c, i] s)
        in if \<not> hasRegistry s0 c
           then (Inl (Error (''getRegistry: '' @ c)), s0)
           else (case rx_subscribe s0 of
                   (h1, s1) \<Rightarrow>
                 (case rx_subscribe
                         (if isRelay s c
                          then log Info ''[%s] subscribe outbound DMP - by event (%s)'' [c, i] s1
                          else log Info ''[%s] subscribe outbound UMP (%s)'' [c, i] s1) of
                   (h2, s2) \<Rightarrow>
                     (Inr ([\<lparr>chainId = c, sub = h1\<rparr>, \<lparr>chainId = c, sub = h2\<rparr>],
                           sendersCtl, messageCtl), s2))))"

text \<open>\<open>relayIds[0]\<close>, which is \<open>undefined\<close> when no relay chain is configured.\<close>

definition relayId0 :: "Switchboard \<Rightarrow> string" where
  "relayId0 s = (case relayIds s of [] \<Rightarrow> ''undefined'' | r # _ \<Rightarrow> r)"

definition monitorRelay ::
  "Subscription \<Rightarrow> Switchboard \<Rightarrow> (error + RxSubscriptionWithId) \<times> Switchboard" where
  "monitorRelay qs s =
     (let i = sub_id qs; c = origin qs;
          s1 = (if (case subs s i of Some h \<Rightarrow> relaySub h \<noteq> None | None \<Rightarrow> False)
                then log Debug ''Relay subscription already exists.'' [] s else s);
          s2 = log Info ''[%s] subscribe relay %s xcm events (%s)'' [c, relayId0 s1, i] s1
      in if \<not> hasRegistry s2 (relayId0 s2)
         then (Inl (Error (''getRegistry: '' @ relayId0 s2)), s2)
         else (case rx_subscribe s2 of (h, s3) \<Rightarrow> (Inr \<lparr>chainId = c, sub = h\<rparr>, s3)))"

text \<open>
  \<open>#monitor\<close>. An error of the origin or destination monitors is rethrown after the
  origin observers are unsubscribed; an error of the relay monitor is logged and the
  subscription goes on without a relay observer.
\<close>

definition monitor :: "Subscription \<Rightarrow> Switchboard \<Rightarrow> error option \<times> Switchboard" where
  "monitor qs s =
     (case monitorOrigins qs s of
        (Inl e, s1) \<Rightarrow> (Some e, s1)
      | (Inr (osubs, sendersCtl, messageCtl), s1) \<Rightarrow>
          (case monitorDestinations qs s1 of
             (Inl e, s2) \<Rightarrow> (Some e, unsubscribe_each osubs s2)
           | (Inr dsubs, s2) \<Rightarrow>
               (case (if shouldMonitorRelay qs s2
                      then (case monitorRelay qs s2 of
                              (Inr r, s3) \<Rightarrow> (Some r, s3)
                            | (Inl e, s3) \<Rightarrow>
                                (None, log Err ''Error on relay subscription (%s)'' [sub_id qs] s3))
                      else (None, s2)) of
                  (relay, s3) \<Rightarrow>
                    (None,
                     s3\<lparr>subs := (subs s3)(sub_id qs \<mapsto>
                           \<lparr>descriptor = qs,
                            sendersControl = sendersCtl,
                            messageControl = messageCtl,
                            originSubs = osubs,
                            destinationSubs = dsubs,
                            relaySub = relay\<rparr>),
                        stats_ephemeral :=
                          (if ephemeral qs then stats_ephemeral s3 + 1 else stats_ephemeral s3),
                        stats_persistent :=
                          (if ephemeral qs then stats_persistent s3 else stats_persistent s3 + 1)\<rparr>))))"

text \<open>
  \<open>subscribe\<close>: the cap check, then \<open>db.insert\<close> for a subscription that is not
  ephemeral, then \<open>#monitor\<close>. The result is the error thrown, if any, and the state.
\<close>

definition subscribe :: "Subscription \<Rightarrow> Switchboard \<Rightarrow> error option \<times> Switchboard" where
  "subscribe qs s =
     (if stats_ephemeral s \<ge> maxEphemeral s \<or> stats_persistent s \<ge> maxPersistent s
      then (Some (SubscribeError TOO_MANY_SUBSCRIBERS ''too many subscriptions''), s)
      else if \<not> ephemeral qs \<and> db_rejects s
      then (Some (Error ''db.insert''), s)
      else
        (case monitor qs (if ephemeral qs then s else db_insert qs s) of
           (Some e, s1) \<Rightarrow> (Some e, s1)
         | (None, s1) \<Rightarrow>
             (None, log Info ''[%s] new subscription: %j'' [origin qs, sub_id qs] s1)))"

text \<open>
  \<open>#subs\<close> is an object literal, so \<open>this.#subs[id]\<close> of an id the map does not hold
  is \<open>undefined\<close> only when the id names no member of \<open>Object.prototype\<close>; for one of
  the names below it is the inherited member, which has none of the properties of a
  handler.
\<close>

definition Object_prototype_members :: "string list" where
  "Object_prototype_members =
     [''constructor'', ''__defineGetter__'', ''__defineSetter__'', ''hasOwnProperty'',
      ''__lookupGetter__'', ''__lookupSetter__'', ''isPrototypeOf'',
      ''propertyIsEnumerable'', ''toString'', ''valueOf'', ''__proto__'',
      ''toLocaleString'']"

text \<open>
  \<open>unsubscribe\<close>. An id that is not in the map and names no member of
  \<open>Object.prototype\<close> is warned about. Everything after that check runs in a \<open>try\<close>
  whose \<open>catch\<close> logs: the destructuring of an inherited member throws at once, and a
  rejection of \<open>clearPendingStates\<close> or of \<open>db.remove\<close> ends the method there.
\<close>

definition unsubscribe :: "string \<Rightarrow> Switchboard \<Rightarrow> Switchboard" where
  "unsubscribe i s =
     (case subs s i of
        None \<Rightarrow>
          if i \<in> set Object_prototype_members
          then log Err ''Error unsubscribing %s'' [i] s
          else log Warn ''unsubscribe from a non-existent subscription %s'' [i] s
      | Some h \<Rightarrow>
          let s1 = log Info ''[%s] unsubscribe %s'' [origin (descriptor h), i] s;
              s2 = unsubscribe_each (originSubs h) s1;
              s3 = unsubscribe_each (destinationSubs h) s2;
              s4 = (case relaySub h of Some r \<Rightarrow> rx_unsubscribe (sub r) s3 | None \<Rightarrow> s3);
              s5 = s4\<lparr>subs := (subs s4)(i := None)\<rparr>;
              s6 = clearPendingStates i s5
          in if engine_rejects s6
             then log Err ''Error unsubscribing %s'' [i] s6
             else if ephemeral (descriptor h)
             then s6\<lparr>stats_ephemeral := stats_ephemeral s6 - 1\<rparr>
             else
               let s7 = s6\<lparr>stats_persistent := stats_persistent s6 - 1\<rparr>
               in if db_rejects s7
                  then log Err ''Error unsubscribing %s'' [i] s7
                  else db_remove i s7)"

text \<open>
  The update methods. \<open>updateSenders\<close>, \<open>updateDestinations\<close> and \<open>updateEvents\<close>
  open with a destructuring of \<open>this.#subs[id]\<close>, which throws a \<open>TypeError\<close> when
  the id is unknown; \<open>updateSubscription\<close> checks and warns.
\<close>

definition updateSenders :: "string \<Rightarrow> Switchboard \<Rightarrow> error option \<times> Switchboard" where
  "updateSenders i s =
     (case subs s i of
        None \<Rightarrow> (Some (TypeError ''Cannot destructure property of undefined''), s)
      | Some h \<Rightarrow>
          (None, s\<lparr>subs := (subs s)(i \<mapsto>
                   h\<lparr>sendersControl := sendersCriteria (senders (descriptor h))\<rparr>)\<rparr>))"

definition updateDestinationSubscriptions ::
  "string \<Rightarrow> Switchboard \<Rightarrow> (error + RxSubscriptionWithId list) \<times> Switchboard" where
  "updateDestinationSubscriptions i s =
     (case subs s i of
        None \<Rightarrow> (Inl (TypeError ''Cannot destructure property of undefined''), s)
      | Some h \<Rightarrow>
          (case monitorDestinations (descriptor h) s of
             (Inl e, s1) \<Rightarrow> (Inl e, s1)
           | (Inr new_subs, s1) \<Rightarrow>
               let updatedSubs = destinationSubs h @ new_subs;
                   removed = filter (\<lambda>x. chainId x \<notin> set (destinations (descriptor h)))
                               updatedSubs
               in (Inr (filter (\<lambda>x. x \<notin> set removed) updatedSubs),
                   unsubscribe_each removed s1)))"

definition updateDestinations :: "string \<Rightarrow> Switchboard \<Rightarrow> error option \<times> Switchboard" where
  "updateDestinations i s =
     (case subs s i of
        None \<Rightarrow> (Some (TypeError ''Cannot destructure property of undefined''), s)
      | Some h \<Rightarrow>
          let s1 = s\<lparr>subs := (subs s)(i \<mapsto>
                     h\<lparr>messageControl := messageCriteria (destinations (descriptor h))\<rparr>)\<rparr>
          in (case updateDestinationSubscriptions i s1 of
                (Inl e, s2) \<Rightarrow> (Some e, s2)
              | (Inr updatedSubs, s2) \<Rightarrow>
                  (case subs s2 i of
                     None \<Rightarrow> (Some (TypeError ''Cannot set properties of undefined''), s2)
                   | Some h2 \<Rightarrow>
                       (None,
                        s2\<lparr>subs := (subs s2)(i \<mapsto> h2\<lparr>destinationSubs := updatedSubs\<rparr>)\<rparr>))))"

definition updateEvents :: "string \<Rightarrow> Switchboard \<Rightarrow> error option \<times> Switchboard" where
  "updateEvents i s =
     (case subs s i of
        None \<Rightarrow> (Some (TypeError ''Cannot destructure property of undefined''), s)
      | Some h \<Rightarrow>
          if shouldMonitorRelay (descriptor h) s \<and> relaySub h = None
          then (case monitorRelay (descriptor h) s of
                  (Inr r, s1) \<Rightarrow>
                    (None, s1\<lparr>subs := (subs s1)(i \<mapsto> h\<lparr>relaySub := Some r\<rparr>)\<rparr>)
                | (Inl e, s1) \<Rightarrow>
                    (None, log Err ''Error on relay subscription (%s)'' [i] s1))
          else if \<not> shouldMonitorRelay (descriptor h) s \<and> relaySub h \<noteq> None
          then (case relaySub h of
                  Some r \<Rightarrow>
                    (None, (rx_unsubscribe (sub r) s)
                             \<lparr>subs := (subs s)(i \<mapsto> h\<lparr>relaySub := None\<rparr>)\<rparr>)
                | None \<Rightarrow> (None, s))
          else (None, s))"

definition updateSubscription :: "Subscription \<Rightarrow> Switchboard \<Rightarrow> Switchboard" where
  "updateSubscription sb s =
     (case subs s (sub_id sb) of
        Some h \<Rightarrow> s\<lparr>subs := (subs s)(sub_id sb \<mapsto> h\<lparr>descriptor := sb\<rparr>)\<rparr>
      | None \<Rightarrow> log Warn ''trying to update an unknown subscription %s'' [sub_id sb] s)"

text \<open>
  \<open>#onXcmWaypointReached\<close>, the callback the engine emits to: the fan-out to the
  notifier.
\<close>

definition onXcmWaypointReached :: "XcmNotifyMessage \<Rightarrow> Switchboard \<Rightarrow> Switchboard" where
  "onXcmWaypointReached msg s =
     (case subs s (subscriptionId msg) of
        Some h \<Rightarrow>
          if (events (descriptor h) = EventsUndefined \<or> events (descriptor h) = EventsAny \<or>
                (case events (descriptor h) of
                   EventsList es \<Rightarrow> msg_type msg \<in> set es | _ \<Rightarrow> False)) \<and>
             matchSenders (sendersControl h) (sender msg)
          then s\<lparr>notified := notified s @ [(descriptor h, msg)]\<rparr>
          else s
      | None \<Rightarrow>
          log Warn ''Unable to find descriptor for subscription %s'' [subscriptionId msg] s)"

text \<open>What setting up observers never touches.\<close>

definition same_base :: "Switchboard \<Rightarrow> Switchboard \<Rightarrow> bool" where
  "same_base s s' \<longleftrightarrow>
     subs s' = subs s \<and> db s' = db s \<and> isRelay s' = isRelay s \<and>
     hasBlocks s' = hasBlocks s \<and> hasRegistry s' = hasRegistry s \<and>
     relayIds s' = relayIds s \<and>
     stats_ephemeral s' = stats_ephemeral s \<and> stats_persistent s' = stats_persistent s \<and>
     notified s' = notified s \<and> cleared s' = cleared s"

section \<open>Concrete inputs\<close>

text \<open>
  A network of one relay chain and two parachains, a switchboard with the default caps,
  a persistent subscription \<open>s1\<close> from parachain 1000 to parachain 2004 for every sender
  and every event, the handler \<open>subscribe\<close> builds for it, and a \<open>Received\<close>
  notification for \<open>s1\<close> whose extrinsic was signed by account \<open>acctB\<close> with a proxy
  \<open>acctC\<close>.
\<close>

definition ingress0 :: Ingress where
  "ingress0 =
     \<lparr>ingress_isRelay = (\<lambda>c. c = ''urn:ocn:polkadot:0''),
      ingress_relayIds = [''urn:ocn:polkadot:0''],
      ingress_hasBlocks = (\<lambda>c. c \<in> set [''urn:ocn:polkadot:0'', ''urn:ocn:polkadot:1000'',
          ''urn:ocn:polkadot:2004'']),
      ingress_hasRegistry = (\<lambda>c. c \<in> set [''urn:ocn:polkadot:0'', ''urn:ocn:polkadot:1000'',
          ''urn:ocn:polkadot:2004''])\<rparr>"

definition sb0 :: Switchboard where
  "sb0 = new_Switchboard ingress0
     \<lparr>subscriptionMaxPersistent = None, subscriptionMaxEphemeral = None\<rparr>"

definition sub1 :: Subscription where
  "sub1 = \<lparr>sub_id = ''s1'', origin = ''urn:ocn:polkadot:1000'', senders = SendersAny,
           destinations = [''urn:ocn:polkadot:2004''], ephemeral = False, events = EventsAny\<rparr>"

definition handler1 :: RxSubscriptionHandler where
  "handler1 =
     \<lparr>descriptor = sub1,
      sendersControl = MatchAny,
      messageControl = In ''recipient'' [''urn:ocn:polkadot:2004''],
      originSubs = [\<lparr>chainId = ''urn:ocn:polkadot:1000'', sub = 0\<rparr>,
                    \<lparr>chainId = ''urn:ocn:polkadot:1000'', sub = 1\<rparr>],
      destinationSubs = [\<lparr>chainId = ''urn:ocn:polkadot:2004'', sub = 2\<rparr>],
      relaySub = Some \<lparr>chainId = ''urn:ocn:polkadot:1000'', sub = 3\<rparr>\<rparr>"

definition sb1 :: Switchboard where
  "sb1 = snd (subscribe sub1 sb0)"

definition xtB :: ExtrinsicWithId where
  "xtB = \<lparr>signer = accountId ''acctB'' ''0xB0'',
          extraSigners = [\<lparr>signer_type = ''proxy'', address = accountId ''acctC'' ''0xC0''\<rparr>]\<rparr>"

definition msgB :: XcmNotifyMessage where
  "msgB = \<lparr>subscriptionId = ''s1'', msg_type = Received, sender = Some xtB,
           waypoint = ''0xBB''\<rparr>"

text \<open>The descriptor of \<open>s1\<close> after an update of its senders, and of its events.\<close>

definition sub1_acctA :: Subscription where
  "sub1_acctA = sub1\<lparr>senders := SendersList [''acctA'']\<rparr>"

definition sub1_no_relayed :: Subscription where
  "sub1_no_relayed = sub1\<lparr>events := EventsList [Sent, Received]\<rparr>"

text \<open>The descriptor of \<open>s1\<close> with a destination the ingress consumer does not serve.\<close>

definition sub1_unknown_dest :: Subscription where
  "sub1_unknown_dest = sub1\<lparr>destinations := [''urn:ocn:polkadot:9999'']\<rparr>"

text \<open>
  The same network when the ingress consumer cannot give the registry of the relay
  chain, the switchboard on it, and the handler of \<open>s1\<close> without a relay observer.
\<close>

definition ingress_no_relay_registry :: Ingress where
  "ingress_no_relay_registry =
     ingress0\<lparr>ingress_hasRegistry :=
       (\<lambda>c. c \<in> set [''urn:ocn:polkadot:1000'', ''urn:ocn:polkadot:2004''])\<rparr>"

definition sb0_no_relay_registry :: Switchboard where
  "sb0_no_relay_registry = new_Switchboard ingress_no_relay_registry
     \<lparr>subscriptionMaxPersistent = None, subscriptionMaxEphemeral = None\<rparr>"

definition handler1_no_relay :: RxSubscriptionHandler where
  "handler1_no_relay = handler1\<lparr>relaySub := None\<rparr>"

text \<open>
  The switchboard after \<open>s1\<close> has dropped \<open>Relayed\<close> from its events and
  \<open>updateEvents\<close> has run, and after the descriptor has then been set back.
\<close>

definition sb1_removed :: Switchboard where
  "sb1_removed = snd (updateEvents ''s1'' (updateSubscription sub1_no_relayed sb1))"

definition sb1_restored :: Switchboard where
  "sb1_restored = updateSubscription sub1 sb1_removed"

text \<open>The messages of the spec's literal scenarios, for evaluation on concrete inputs.\<close>

definition sentAA :: XcmMessageSent where
  "sentAA = \<lparr>sent_chainId = ''urn:ocn:polkadot:1000'', sent_messageHash = ''0xAA'',
             sent_recipient = ''urn:ocn:polkadot:2004'', sent_payload = ''''\<rparr>"

definition recvAA :: XcmMessageReceived where
  "recvAA = \<lparr>recv_chainId = ''urn:ocn:polkadot:2004'', recv_messageHash = ''0xAA'',
             recv_payload = ''''\<rparr>"

text \<open>
  An earlier observation of the same hash on the same chain (a replayed block), which
  differs from \<open>recvAA\<close> in its payload.
\<close>

definition recvAA_replay :: XcmMessageReceived where
  "recvAA_replay = recvAA\<lparr>recv_payload := ''replay''\<rparr>"

section \<open>Properties of the matching engine\<close>

lemma after_match_sent_first:
  assumes "recv_messageHash inMsg = sent_messageHash outMsg"
    and "recv_chainId inMsg = sent_recipient outMsg"
    and "ck = confirmation_key (sent_messageHash outMsg) (sent_recipient outMsg)"
    and "inbound e ck = None"
  shows "outbound (onInboundMessage inMsg (onOutboundMessage outMsg e)) ck = None"
    and "inbound (onInboundMessage inMsg (onOutboundMessage outMsg e)) ck = None"
  using assms by (simp_all add: onOutboundMessage_def onInboundMessage_def notify_def Let_def)

lemma after_match_received_first:
  assumes "recv_messageHash inMsg = sent_messageHash outMsg"
    and "recv_chainId inMsg = sent_recipient outMsg"
    and "ck = confirmation_key (sent_messageHash outMsg) (sent_recipient outMsg)"
    and "outbound e ck = None"
  shows "outbound (onOutboundMessage outMsg (onInboundMessage inMsg e)) ck = None"
    and "inbound (onOutboundMessage outMsg (onInboundMessage inMsg e)) ck = None"
  using assms by (simp_all add: onOutboundMessage_def onInboundMessage_def notify_def Let_def)

lemma sent_without_counterpart:
  assumes "ck = confirmation_key (sent_messageHash outMsg) (sent_recipient outMsg)"
    and "inbound e ck = None"
  shows "emitted (onOutboundMessage outMsg e) = emitted e"
    and "outbound (onOutboundMessage outMsg e) ck = Some outMsg"
    and "inbound (onOutboundMessage outMsg e) = inbound e"
  using assms by (simp_all add: onOutboundMessage_def Let_def)

lemma received_without_counterpart:
  assumes "ck = confirmation_key (recv_messageHash inMsg) (recv_chainId inMsg)"
    and "outbound e ck = None"
  shows "emitted (onInboundMessage inMsg e) = emitted e"
    and "inbound (onInboundMessage inMsg e) ck = Some inMsg"
    and "outbound (onInboundMessage inMsg e) = outbound e"
  using assms by (simp_all add: onInboundMessage_def Let_def)

text \<open>
  Claim C1, as stated, fails on this engine: what a leg is joined with is whatever the
  counterpart sublevel holds under the key. After the replayed \<open>recvAA_replay\<close> was
  stored, the pair \<open>sentAA\<close>, \<open>recvAA\<close> handled sent leg first is not joined: the one
  notification emitted joins \<open>sentAA\<close> with the replay, and \<open>recvAA\<close> is left as a
  pending inbound entry under the key.
\<close>

theorem stale_counterpart_is_joined_counterexample:
  "emitted (onInboundMessage recvAA
      (onOutboundMessage sentAA (onInboundMessage recvAA_replay new_MatchingEngine))) =
     [XcmMessageNotify sentAA recvAA_replay] \<and>
   XcmMessageNotify sentAA recvAA_replay \<noteq> XcmMessageNotify sentAA recvAA \<and>
   inbound (onInboundMessage recvAA
      (onOutboundMessage sentAA (onInboundMessage recvAA_replay new_MatchingEngine)))
     ''0xAA:urn:ocn:polkadot:2004'' = Some recvAA"
  by (simp add: onOutboundMessage_def onInboundMessage_def notify_def new_MatchingEngine_def
      sentAA_def recvAA_def recvAA_replay_def confirmation_key_def Let_def)

text \<open>
  Claim C1, amended. A sent and a received observation with the same message hash, the
  received one on the chain that is the sent one's recipient, share one confirmation
  key. Handled in either order from a state where the counterpart sublevel of the leg
  handled first holds nothing under that key, the engine emits exactly one
  notification, the one joining the two messages, and afterwards neither sublevel holds
  an entry under the key.
\<close>

theorem matched_once_either_order:
  assumes hash: "recv_messageHash inMsg = sent_messageHash outMsg"
    and chain: "recv_chainId inMsg = sent_recipient outMsg"
    and ck: "ck = confirmation_key (sent_messageHash outMsg) (sent_recipient outMsg)"
  shows "(inbound e ck = None \<longrightarrow>
            emitted (onInboundMessage inMsg (onOutboundMessage outMsg e)) =
              emitted e @ [XcmMessageNotify outMsg inMsg] \<and>
            outbound (onInboundMessage inMsg (onOutboundMessage outMsg e)) ck = None \<and>
            inbound (onInboundMessage inMsg (onOutboundMessage outMsg e)) ck = None) \<and>
         (outbound e ck = None \<longrightarrow>
            emitted (onOutboundMessage outMsg (onInboundMessage inMsg e)) =
              emitted e @ [XcmMessageNotify outMsg inMsg] \<and>
            outbound (onOutboundMessage outMsg (onInboundMessage inMsg e)) ck = None \<and>
            inbound (onOutboundMessage outMsg (onInboundMessage inMsg e)) ck = None)"
  using hash chain ck
  by (simp add: onOutboundMessage_def onInboundMessage_def notify_def Let_def)

theorem matched_once_either_order_witness:
  "emitted (onInboundMessage recvAA (onOutboundMessage sentAA new_MatchingEngine)) =
     [XcmMessageNotify sentAA recvAA] \<and>
   outbound (onInboundMessage recvAA (onOutboundMessage sentAA new_MatchingEngine))
     ''0xAA:urn:ocn:polkadot:2004'' = None \<and>
   inbound (onInboundMessage recvAA (onOutboundMessage sentAA new_MatchingEngine))
     ''0xAA:urn:ocn:polkadot:2004'' = None \<and>
   emitted (onOutboundMessage sentAA (onInboundMessage recvAA new_MatchingEngine)) =
     [XcmMessageNotify sentAA recvAA] \<and>
   outbound (onOutboundMessage sentAA (onInboundMessage recvAA new_MatchingEngine))
     ''0xAA:urn:ocn:polkadot:2004'' = None \<and>
   inbound (onOutboundMessage sentAA (onInboundMessage recvAA new_MatchingEngine))
     ''0xAA:urn:ocn:polkadot:2004'' = None"
  using matched_once_either_order
    [of recvAA sentAA "''0xAA:urn:ocn:polkadot:2004''" new_MatchingEngine]
  by (simp add: sentAA_def recvAA_def new_MatchingEngine_def confirmation_key_def Let_def)

text \<open>
  Claim C2, as stated, fails on this engine: a sent message handled first, with no
  counterpart stored, is written to the outbound sublevel and nothing is emitted. The
  engine has no notification for a sent leg alone.
\<close>

theorem sent_alone_emits_nothing_counterexample:
  "emitted (onOutboundMessage sentAA new_MatchingEngine) = [] \<and>
   outbound (onOutboundMessage sentAA new_MatchingEngine) ''0xAA:urn:ocn:polkadot:2004'' =
     Some sentAA"
  by (simp add: onOutboundMessage_def new_MatchingEngine_def sentAA_def confirmation_key_def
      Let_def)

text \<open>
  Claim C2, amended. A sent leg handled while the inbound sublevel holds no counterpart
  under its key is stored as the pending outbound entry under that key, the inbound
  sublevel is left as it was, and no notification is emitted. A sent leg handled while
  the inbound sublevel holds a counterpart under its key is notified exactly once, by
  the notification joining it with that counterpart; the counterpart entry is deleted
  and the outbound sublevel is left as it was.
\<close>

theorem sent_leg_notified_only_on_match:
  assumes "ck = confirmation_key (sent_messageHash outMsg) (sent_recipient outMsg)"
  shows "(inbound e ck = None \<longrightarrow>
            emitted (onOutboundMessage outMsg e) = emitted e \<and>
            outbound (onOutboundMessage outMsg e) ck = Some outMsg \<and>
            inbound (onOutboundMessage outMsg e) = inbound e) \<and>
         (inbound e ck = Some inMsg \<longrightarrow>
            emitted (onOutboundMessage outMsg e) =
              emitted e @ [XcmMessageNotify outMsg inMsg] \<and>
            inbound (onOutboundMessage outMsg e) ck = None \<and>
            outbound (onOutboundMessage outMsg e) = outbound e)"
  using assms by (simp add: onOutboundMessage_def notify_def Let_def)

theorem sent_leg_notified_only_on_match_witness:
  "inbound new_MatchingEngine ''0xAA:urn:ocn:polkadot:2004'' = None \<and>
   emitted (onOutboundMessage sentAA new_MatchingEngine) = emitted new_MatchingEngine \<and>
   outbound (onOutboundMessage sentAA new_MatchingEngine) ''0xAA:urn:ocn:polkadot:2004'' =
     Some sentAA \<and>
   inbound (onOutboundMessage sentAA new_MatchingEngine) = inbound new_MatchingEngine \<and>
   inbound (onInboundMessage recvAA new_MatchingEngine) ''0xAA:urn:ocn:polkadot:2004'' =
     Some recvAA \<and>
   emitted (onOutboundMessage sentAA (onInboundMessage recvAA new_MatchingEngine)) =
     emitted (onInboundMessage recvAA new_MatchingEngine) @
       [XcmMessageNotify sentAA recvAA] \<and>
   inbound (onOutboundMessage sentAA (onInboundMessage recvAA new_MatchingEngine))
     ''0xAA:urn:ocn:polkadot:2004'' = None \<and>
   outbound (onOutboundMessage sentAA (onInboundMessage recvAA new_MatchingEngine)) =
     outbound (onInboundMessage recvAA new_MatchingEngine)"
proof -
  have k: "''0xAA:urn:ocn:polkadot:2004'' =
      confirmation_key (sent_messageHash sentAA) (sent_recipient sentAA)"
    by (simp add: confirmation_key_def sentAA_def)
  have n: "inbound new_MatchingEngine ''0xAA:urn:ocn:polkadot:2004'' = None"
    by (simp add: new_MatchingEngine_def)
  have c: "inbound (onInboundMessage recvAA new_MatchingEngine)
      ''0xAA:urn:ocn:polkadot:2004'' = Some recvAA"
    by (simp add: onInboundMessage_def new_MatchingEngine_def recvAA_def confirmation_key_def
        Let_def)
  from sent_leg_notified_only_on_match [OF k, of new_MatchingEngine] n
    sent_leg_notified_only_on_match [OF k, of "onInboundMessage recvAA new_MatchingEngine"
      recvAA] c
  show ?thesis by simp
qed

text \<open>
  Claim C3, as stated, fails on this engine: it keeps no record of matched keys. After
  the match of \<open>sentAA\<close> and \<open>recvAA\<close> the outbound sublevel is empty under the key; the
  same sent message observed again is stored there, and the received message observed
  again after that is matched with it and notified a second time.
\<close>

theorem observation_after_match_is_stored_counterexample:
  "outbound (onInboundMessage recvAA (onOutboundMessage sentAA new_MatchingEngine))
     ''0xAA:urn:ocn:polkadot:2004'' = None \<and>
   outbound (onOutboundMessage sentAA
      (onInboundMessage recvAA (onOutboundMessage sentAA new_MatchingEngine)))
     ''0xAA:urn:ocn:polkadot:2004'' = Some sentAA \<and>
   emitted (onInboundMessage recvAA (onOutboundMessage sentAA
      (onInboundMessage recvAA (onOutboundMessage sentAA new_MatchingEngine)))) =
     [XcmMessageNotify sentAA recvAA, XcmMessageNotify sentAA recvAA]"
  by (simp add: onOutboundMessage_def onInboundMessage_def notify_def new_MatchingEngine_def
      sentAA_def recvAA_def confirmation_key_def Let_def)

text \<open>
  Claim C3, amended. The engine keeps no record of a match: in the state \<open>m\<close> a match
  leaves (either order of the two legs, as in claim C1), the key is as new. The next
  observation of either leg under the key emits no notification and is stored as the
  pending entry of its own sublevel; the opposite leg observed after it is matched with
  it, which emits one further notification joining the two and deletes the entry.
\<close>

theorem observation_after_match_is_stored:
  assumes pair: "recv_messageHash inMsg = sent_messageHash outMsg"
      "recv_chainId inMsg = sent_recipient outMsg"
    and ck: "ck = confirmation_key (sent_messageHash outMsg) (sent_recipient outMsg)"
    and matched:
      "(inbound e ck = None \<and> m = onInboundMessage inMsg (onOutboundMessage outMsg e)) \<or>
       (outbound e ck = None \<and> m = onOutboundMessage outMsg (onInboundMessage inMsg e))"
    and again: "confirmation_key (sent_messageHash outMsg') (sent_recipient outMsg') = ck"
      "confirmation_key (recv_messageHash inMsg') (recv_chainId inMsg') = ck"
  shows "emitted (onOutboundMessage outMsg' m) = emitted m \<and>
         outbound (onOutboundMessage outMsg' m) ck = Some outMsg' \<and>
         emitted (onInboundMessage inMsg' (onOutboundMessage outMsg' m)) =
           emitted m @ [XcmMessageNotify outMsg' inMsg'] \<and>
         outbound (onInboundMessage inMsg' (onOutboundMessage outMsg' m)) ck = None \<and>
         emitted (onInboundMessage inMsg' m) = emitted m \<and>
         inbound (onInboundMessage inMsg' m) ck = Some inMsg' \<and>
         emitted (onOutboundMessage outMsg' (onInboundMessage inMsg' m)) =
           emitted m @ [XcmMessageNotify outMsg' inMsg'] \<and>
         inbound (onOutboundMessage outMsg' (onInboundMessage inMsg' m)) ck = None"
proof -
  have clear: "outbound m ck = None" "inbound m ck = None"
    using matched after_match_sent_first [OF pair ck] after_match_received_first [OF pair ck]
    by auto
  have first: "emitted (onOutboundMessage outMsg' m) = emitted m"
    "outbound (onOutboundMessage outMsg' m) ck = Some outMsg'"
    "emitted (onInboundMessage inMsg' m) = emitted m"
    "inbound (onInboundMessage inMsg' m) ck = Some inMsg'"
    using clear again sent_without_counterpart [of ck outMsg' m]
      received_without_counterpart [of ck inMsg' m]
    by simp_all
  have "emitted (onInboundMessage inMsg' (onOutboundMessage outMsg' m)) =
           emitted m @ [XcmMessageNotify outMsg' inMsg']"
    "outbound (onInboundMessage inMsg' (onOutboundMessage outMsg' m)) ck = None"
    using first(1,2) again(2)
    by (simp_all add: onInboundMessage_def [of inMsg'] notify_def Let_def)
  moreover have "emitted (onOutboundMessage outMsg' (onInboundMessage inMsg' m)) =
           emitted m @ [XcmMessageNotify outMsg' inMsg']"
    "inbound (onOutboundMessage outMsg' (onInboundMessage inMsg' m)) ck = None"
    using first(3,4) again(1)
    by (simp_all add: onOutboundMessage_def [of outMsg'] notify_def Let_def)
  ultimately show ?thesis using first by simp
qed

theorem observation_after_match_is_stored_witness:
  "emitted (onOutboundMessage sentAA
      (onInboundMessage recvAA (onOutboundMessage sentAA new_MatchingEngine))) =
     [XcmMessageNotify sentAA recvAA] \<and>
   outbound (onOutboundMessage sentAA
      (onInboundMessage recvAA (onOutboundMessage sentAA new_MatchingEngine)))
     ''0xAA:urn:ocn:polkadot:2004'' = Some sentAA \<and>
   emitted (onInboundMessage recvAA_replay (onOutboundMessage sentAA
      (onInboundMessage recvAA (onOutboundMessage sentAA new_MatchingEngine)))) =
     [XcmMessageNotify sentAA recvAA, XcmMessageNotify sentAA recvAA_replay] \<and>
   emitted (onInboundMessage recvAA_replay
      (onInboundMessage recvAA (onOutboundMessage sentAA new_MatchingEngine))) =
     [XcmMessageNotify sentAA recvAA] \<and>
   inbound (onInboundMessage recvAA_replay
      (onInboundMessage recvAA (onOutboundMessage sentAA new_MatchingEngine)))
     ''0xAA:urn:ocn:polkadot:2004'' = Some recvAA_replay \<and>
   emitted (onOutboundMessage sentAA (onInboundMessage recvAA_replay
      (onInboundMessage recvAA (onOutboundMessage sentAA new_MatchingEngine)))) =
     [XcmMessageNotify sentAA recvAA, XcmMessageNotify sentAA recvAA_replay]"
proof -
  let ?m = "onInboundMessage recvAA (onOutboundMessage sentAA new_MatchingEngine)"
  have k: "''0xAA:urn:ocn:polkadot:2004'' =
      confirmation_key (sent_messageHash sentAA) (sent_recipient sentAA)"
    "confirmation_key (recv_messageHash recvAA_replay) (recv_chainId recvAA_replay) =
      ''0xAA:urn:ocn:polkadot:2004''"
    by (simp_all add: confirmation_key_def sentAA_def recvAA_def recvAA_replay_def)
  have p: "recv_messageHash recvAA = sent_messageHash sentAA"
    "recv_chainId recvAA = sent_recipient sentAA"
    by (simp_all add: sentAA_def recvAA_def)
  have i: "inbound new_MatchingEngine ''0xAA:urn:ocn:polkadot:2004'' = None"
    by (simp add: new_MatchingEngine_def)
  have m: "emitted ?m = [XcmMessageNotify sentAA recvAA]"
    by (simp add: onOutboundMessage_def onInboundMessage_def notify_def new_MatchingEngine_def
        sentAA_def recvAA_def confirmation_key_def Let_def)
  show ?thesis
    using observation_after_match_is_stored [OF p k(1) _ k(1) [symmetric] k(2),
        of new_MatchingEngine ?m] i m
    by simp
qed

section \<open>Properties of the selection criteria\<close>

lemma split_paths [simp]:
  "split_path ''extrinsic.signer.id'' = [''extrinsic'', ''signer'', ''id'']"
  "split_path ''extrinsic.signer.publicKey'' = [''extrinsic'', ''signer'', ''publicKey'']"
  "split_path ''extrinsic.extraSigners.id'' = [''extrinsic'', ''extraSigners'', ''id'']"
  "split_path ''extrinsic.extraSigners.publicKey'' = [''extrinsic'', ''extraSigners'', ''publicKey'']"
  "split_path ''recipient'' = [''recipient'']"
  by simp_all

lemma in_empty: "\<not> list_ex (in_matches []) vs"
proof (induction vs)
  case Nil show ?case by simp
next
  case (Cons v vs)
  have "\<not> in_matches [] v" by (cases v) (simp_all add: list_ex_iff split: json.splits)
  with Cons show ?case by simp
qed

lemma extras_id:
  "concat (map (resolve [''id''])
     (map (\<lambda>s. JObject (object_assign (toPrimitive (address s))
          [(''type'', JString (signer_type s)), (''publicKey'', JString (toHex (address s)))])) es))
   = map (\<lambda>s. JString (fst s)) ps"
  if "map address es = map (\<lambda>p. accountId (fst p) (snd p)) ps"
  using that
proof (induction es arbitrary: ps)
  case Nil then show ?case by simp
next
  case (Cons e es)
  then obtain p ps' where ps: "ps = p # ps'" by (cases ps) auto
  with Cons.prems have a: "address e = accountId (fst p) (snd p)"
    and r: "map address es = map (\<lambda>p. accountId (fst p) (snd p)) ps'" by auto
  show ?case using Cons.IH [OF r] a
    by (simp add: ps accountId_def object_assign_def)
qed

lemma extras_pk:
  "concat (map (resolve [''publicKey''])
     (map (\<lambda>s. JObject (object_assign (toPrimitive (address s))
          [(''type'', JString (signer_type s)), (''publicKey'', JString (toHex (address s)))])) es))
   = map (\<lambda>s. JString (snd s)) ps"
  if "map address es = map (\<lambda>p. accountId (fst p) (snd p)) ps"
  using that
proof (induction es arbitrary: ps)
  case Nil then show ?case by simp
next
  case (Cons e es)
  then obtain p ps' where ps: "ps = p # ps'" by (cases ps) auto
  with Cons.prems have a: "address e = accountId (fst p) (snd p)"
    and r: "map address es = map (\<lambda>p. accountId (fst p) (snd p)) ps'" by auto
  show ?case using Cons.IH [OF r] a
    by (simp add: ps accountId_def object_assign_def)
qed

lemma matchSenders_list_iff:
  assumes "signer x = accountId a pk"
    and "map address (extraSigners x) = map (\<lambda>p. accountId (fst p) (snd p)) ps"
  shows "matchSenders (sendersCriteria (SendersList xs)) (Some x) \<longleftrightarrow>
         a \<in> set xs \<or> pk \<in> set xs \<or> (\<exists>p \<in> set ps. fst p \<in> set xs \<or> snd p \<in> set xs)"
  using assms(1) extras_id [OF assms(2)] extras_pk [OF assms(2)]
  by (auto simp add: matchSenders_def sendersCriteria_def accountId_def object_assign_def
      list_ex_iff simp del: split_path.simps)

section \<open>Properties of the switchboard\<close>

lemma unsubscribe_each_eq:
  "unsubscribe_each xs s = s\<lparr>active := active s - sub ` set xs\<rparr>"
proof (induction xs arbitrary: s)
  case Nil
  show ?case by (simp add: unsubscribe_each_def)
next
  case (Cons x xs)
  have sets: "active s - {sub x} - sub ` set xs = active s - sub ` set (x # xs)"
    by auto
  have "unsubscribe_each (x # xs) s = unsubscribe_each xs (rx_unsubscribe (sub x) s)"
    by (simp add: unsubscribe_each_def)
  also have "\<dots> = (rx_unsubscribe (sub x) s)
      \<lparr>active := active (rx_unsubscribe (sub x) s) - sub ` set xs\<rparr>"
    by (rule Cons.IH)
  also have "\<dots> = s\<lparr>active := active s - {sub x} - sub ` set xs\<rparr>"
    by (simp add: rx_unsubscribe_def)
  finally show ?case by (simp only: sets)
qed

subsection \<open>The fan-out\<close>

lemma waypoint_keeps_subs [simp]: "subs (onXcmWaypointReached msg s) = subs s"
  by (simp add: onXcmWaypointReached_def log_def split: option.splits)

lemma waypoint_notified:
  "notified (onXcmWaypointReached msg s) =
     (case subs s (subscriptionId msg) of
        None \<Rightarrow> notified s
      | Some h \<Rightarrow>
          if (events (descriptor h) = EventsUndefined \<or> events (descriptor h) = EventsAny \<or>
                (\<exists>es. events (descriptor h) = EventsList es \<and> msg_type msg \<in> set es)) \<and>
             matchSenders (sendersControl h) (sender msg)
          then notified s @ [(descriptor h, msg)]
          else notified s)"
proof (cases "subs s (subscriptionId msg)")
  case None
  then show ?thesis by (simp add: onXcmWaypointReached_def log_def)
next
  case (Some h)
  then show ?thesis
    by (cases "events (descriptor h)") (simp_all add: onXcmWaypointReached_def)
qed

lemma waypoint_unknown_subscription:
  "subs s i = None \<Longrightarrow>
   filter (\<lambda>n. subscriptionId (snd n) = i) (notified (onXcmWaypointReached msg s)) =
   filter (\<lambda>n. subscriptionId (snd n) = i) (notified s)"
  by (cases "subscriptionId msg = i")
     (auto simp add: onXcmWaypointReached_def log_def split: option.splits)

lemma fanout_unknown_subscription:
  "subs s i = None \<Longrightarrow>
   filter (\<lambda>n. subscriptionId (snd n) = i) (notified (fold onXcmWaypointReached msgs s)) =
   filter (\<lambda>n. subscriptionId (snd n) = i) (notified s)"
proof (induction msgs arbitrary: s)
  case Nil
  show ?case by simp
next
  case (Cons m msgs)
  have "subs (onXcmWaypointReached m s) i = None" using Cons.prems by simp
  from Cons.IH [OF this] waypoint_unknown_subscription [OF Cons.prems, of m]
  show ?case by simp
qed

lemma senders_update_suppresses:
  assumes h: "subs s i = Some h"
    and sb: "sub_id sb = i" "senders sb = SendersList xs"
    and msg: "subscriptionId msg = i" "sender msg = Some x"
    and acct: "signer x = accountId a pk"
      "map address (extraSigners x) = map (\<lambda>p. accountId (fst p) (snd p)) ps"
    and out: "a \<notin> set xs" "pk \<notin> set xs" "\<forall>p \<in> set ps. fst p \<notin> set xs \<and> snd p \<notin> set xs"
  shows "notified (onXcmWaypointReached msg (snd (updateSenders i (updateSubscription sb s)))) =
         notified s"
proof -
  have no: "\<not> matchSenders (sendersCriteria (SendersList xs)) (Some x)"
    using matchSenders_list_iff [OF acct, of xs] out by blast
  let ?s1 = "updateSubscription sb s"
  have s1: "?s1 = s\<lparr>subs := (subs s)(i \<mapsto> h\<lparr>descriptor := sb\<rparr>)\<rparr>"
    using h sb(1) by (simp add: updateSubscription_def)
  let ?s2 = "snd (updateSenders i ?s1)"
  have s2: "subs ?s2 i =
      Some (h\<lparr>descriptor := sb, sendersControl := sendersCriteria (SendersList xs)\<rparr>)"
    "notified ?s2 = notified s"
    using sb(2) by (simp_all add: s1 updateSenders_def)
  show ?thesis
    using s2 msg no by (simp add: waypoint_notified)
qed

subsection \<open>Unsubscribing\<close>

lemma unsubscribe_fields:
  assumes "subs s i = Some h"
  shows "subs (unsubscribe i s) = (subs s)(i := None)"
    and "cleared (unsubscribe i s) = cleared s @ [i]"
    and "notified (unsubscribe i s) = notified s"
    and "active (unsubscribe i s) =
          active s - sub ` (set (originSubs h) \<union> set (destinationSubs h) \<union>
            set_option (relaySub h))"
  using assms
  by (auto simp add: unsubscribe_def Let_def unsubscribe_each_eq rx_unsubscribe_def log_def
      clearPendingStates_def db_remove_def split: option.splits)

lemma unsubscribe_db:
  assumes "subs s i = Some h"
  shows "\<not> ephemeral (descriptor h) \<Longrightarrow> \<not> engine_rejects s \<Longrightarrow> \<not> db_rejects s \<Longrightarrow>
           db (unsubscribe i s) = (db s)(i := None)"
    and "ephemeral (descriptor h) \<or> engine_rejects s \<or> db_rejects s \<Longrightarrow>
           db (unsubscribe i s) = db s"
  using assms
  by (auto simp add: unsubscribe_def Let_def unsubscribe_each_eq rx_unsubscribe_def log_def
      clearPendingStates_def db_remove_def split: option.splits)

lemma unsubscribe_unknown:
  "subs s i = None \<Longrightarrow> i \<notin> set Object_prototype_members \<Longrightarrow>
   unsubscribe i s =
     s\<lparr>logs := logs s @ [Log Warn ''unsubscribe from a non-existent subscription %s'' [i]]\<rparr>"
  by (simp add: unsubscribe_def log_def)

lemma unsubscribe_inherited:
  "subs s i = None \<Longrightarrow> i \<in> set Object_prototype_members \<Longrightarrow>
   unsubscribe i s = s\<lparr>logs := logs s @ [Log Err ''Error unsubscribing %s'' [i]]\<rparr>"
  by (simp add: unsubscribe_def log_def)

subsection \<open>Monitoring\<close>

lemma same_base_refl [simp]: "same_base s s"
  by (simp add: same_base_def)

lemma same_base_trans: "same_base s s1 \<Longrightarrow> same_base s1 s2 \<Longrightarrow> same_base s s2"
  by (simp add: same_base_def)

lemma same_base_log [simp]: "same_base s (log l f a s)"
  by (simp add: same_base_def log_def)

lemma same_base_rx_subscribe: "same_base s (snd (rx_subscribe s))"
  by (simp add: same_base_def rx_subscribe_def)

lemma same_base_unsubscribe_each [simp]: "same_base s (unsubscribe_each xs s)"
  by (simp add: same_base_def unsubscribe_each_eq)

lemma same_base_loop: "same_base s (snd (monitorDestinations_loop i originId ds acc s))"
proof (induction i originId ds acc s rule: monitorDestinations_loop.induct)
  case (1 i originId acc s)
  show ?case by simp
next
  case (2 i originId dest rest acc s)
  let ?s1 = "if isRelay s dest then log Info ''[%s] subscribe inbound UMP (%s)'' [dest, i] s
             else if isRelay s originId
               then log Info ''[%s] subscribe inbound DMP (%s)'' [dest, i] s
             else log Info ''[%s] subscribe inbound HRMP (%s)'' [dest, i] s"
  have b1: "same_base s ?s1" by simp
  show ?case
  proof (cases "case subs s i of
            Some h \<Rightarrow> list_ex (\<lambda>x. chainId x = dest) (destinationSubs h)
          | None \<Rightarrow> False")
    case True
    with "2.IH"(1) show ?thesis by simp
  next
    case skip: False
    show ?thesis
    proof (cases "hasBlocks ?s1 dest")
      case False
      have "same_base ?s1 (unsubscribe_each acc ?s1)" by simp
      with b1 have "same_base s (unsubscribe_each acc ?s1)" by (rule same_base_trans)
      with skip False show ?thesis by (simp add: Let_def)
    next
      case True
      obtain h s2 where r: "rx_subscribe ?s1 = (h, s2)" by (cases "rx_subscribe ?s1")
      have b2: "same_base ?s1 s2" using same_base_rx_subscribe [of ?s1] r by simp
      have "same_base s2 (snd (monitorDestinations_loop i originId rest
                       (acc @ [\<lparr>chainId = dest, sub = h\<rparr>]) s2))"
        using "2.IH"(2) [OF skip refl _ r [symmetric]] True by simp
      with b1 b2 have "same_base s (snd (monitorDestinations_loop i originId rest
                       (acc @ [\<lparr>chainId = dest, sub = h\<rparr>]) s2))"
        by (blast intro: same_base_trans)
      with skip True r show ?thesis by (simp add: Let_def)
    qed
  qed
qed

lemma same_base_monitorDestinations: "same_base s (snd (monitorDestinations qs s))"
  by (simp add: monitorDestinations_def same_base_loop)

lemma same_base_monitorOrigins: "same_base s (snd (monitorOrigins qs s))"
  by (simp add: monitorOrigins_def Let_def same_base_def rx_subscribe_def log_def
      split: prod.splits)

lemma same_base_monitorRelay: "same_base s (snd (monitorRelay qs s))"
  by (simp add: monitorRelay_def Let_def same_base_def rx_subscribe_def log_def relayId0_def
      split: prod.splits)

lemma monitorRelay_Inr:
  "monitorRelay qs s = (Inr x, s') \<Longrightarrow> sub x \<in> active s'"
  by (auto simp add: monitorRelay_def Let_def rx_subscribe_def log_def split: if_splits)

lemma monitorRelay_registry:
  "(\<exists>x. fst (monitorRelay qs s) = Inr x) \<longleftrightarrow> hasRegistry s (relayId0 s)"
  by (simp add: monitorRelay_def Let_def rx_subscribe_def log_def relayId0_def)

lemma shouldMonitorRelay_isRelay:
  "isRelay s' = isRelay s \<Longrightarrow> shouldMonitorRelay qs s' = shouldMonitorRelay qs s"
  by (simp add: shouldMonitorRelay_def)

lemma shouldMonitorRelay_iff:
  "shouldMonitorRelay qs s \<longleftrightarrow>
     (events qs = EventsUndefined \<or> events qs = EventsAny \<or>
        (\<exists>es. events qs = EventsList es \<and> Relayed \<in> set es)) \<and>
     \<not> isRelay s (origin qs) \<and>
     (\<exists>d \<in> set (destinations qs). \<not> isRelay s d)"
  by (cases "events qs") (simp_all add: shouldMonitorRelay_def list_ex_iff)

lemma shouldMonitorRelay_same_base:
  "same_base s s' \<Longrightarrow> shouldMonitorRelay qs s' = shouldMonitorRelay qs s"
  by (simp add: shouldMonitorRelay_def same_base_def)

lemma monitor_result:
  assumes m: "monitor qs s = (r, s')"
  shows "db s' = db s \<and> isRelay s' = isRelay s \<and>
         (r = None \<longrightarrow>
            (\<exists>h. subs s' (sub_id qs) = Some h \<and> descriptor h = qs \<and>
                 (relaySub h \<noteq> None \<longrightarrow> shouldMonitorRelay qs s) \<and>
                 (hasRegistry s (relayId0 s) \<and> shouldMonitorRelay qs s \<longrightarrow>
                    relaySub h \<noteq> None) \<and>
                 (\<forall>x. relaySub h = Some x \<longrightarrow> sub x \<in> active s')))"
proof -
  obtain ro s1 where o: "monitorOrigins qs s = (ro, s1)" by (cases "monitorOrigins qs s")
  have b1: "same_base s s1" using same_base_monitorOrigins [of s qs] o by simp
  show ?thesis
  proof (cases ro)
    case (Inl e)
    with m o have "s' = s1" "r = Some e" by (simp_all add: monitor_def)
    with b1 show ?thesis by (simp add: same_base_def)
  next
    case (Inr t)
    obtain osubs sc mc where t: "t = (osubs, sc, mc)" by (cases t)
    obtain rd s2 where d: "monitorDestinations qs s1 = (rd, s2)"
      by (cases "monitorDestinations qs s1")
    have b2: "same_base s1 s2" using same_base_monitorDestinations [of s1 qs] d by simp
    have b12: "same_base s s2" using b1 b2 by (rule same_base_trans)
    show ?thesis
    proof (cases rd)
      case (Inl e)
      with m o Inr t d have "s' = unsubscribe_each osubs s2" "r = Some e"
        by (simp_all add: monitor_def)
      with b12 show ?thesis by (simp add: same_base_def unsubscribe_each_eq)
    next
      case dsubs: (Inr dsubs)
      have sm: "shouldMonitorRelay qs s2 = shouldMonitorRelay qs s"
        by (rule shouldMonitorRelay_same_base [OF b12])
      have reg: "hasRegistry s2 (relayId0 s2) = hasRegistry s (relayId0 s)"
        using b12 by (simp add: same_base_def relayId0_def)
      show ?thesis
      proof (cases "shouldMonitorRelay qs s")
        case False
        from m o Inr t d dsubs sm False
        have "r = None" and
          "s' = s2\<lparr>subs := (subs s2)(sub_id qs \<mapsto>
                           \<lparr>descriptor = qs, sendersControl = sc, messageControl = mc,
                            originSubs = osubs, destinationSubs = dsubs, relaySub = None\<rparr>),
                        stats_ephemeral :=
                          (if ephemeral qs then stats_ephemeral s2 + 1 else stats_ephemeral s2),
                        stats_persistent :=
                          (if ephemeral qs then stats_persistent s2 else stats_persistent s2 + 1)\<rparr>"
          by (simp_all add: monitor_def)
        with b12 False show ?thesis by (simp add: same_base_def)
      next
        case True
        obtain rr s3 where mr: "monitorRelay qs s2 = (rr, s3)" by (cases "monitorRelay qs s2")
        have b3: "same_base s2 s3" using same_base_monitorRelay [of s2 qs] mr by simp
        have b: "same_base s s3" using b12 b3 by (rule same_base_trans)
        show ?thesis
        proof (cases rr)
          case (Inr x)
          have act: "sub x \<in> active s3" using monitorRelay_Inr [of qs s2 x s3] mr Inr by simp
          from m o \<open>ro = Inr t\<close> t d dsubs sm True mr Inr
          have "r = None" and
            "s' = s3\<lparr>subs := (subs s3)(sub_id qs \<mapsto>
                           \<lparr>descriptor = qs, sendersControl = sc, messageControl = mc,
                            originSubs = osubs, destinationSubs = dsubs, relaySub = Some x\<rparr>),
                        stats_ephemeral :=
                          (if ephemeral qs then stats_ephemeral s3 + 1 else stats_ephemeral s3),
                        stats_persistent :=
                          (if ephemeral qs then stats_persistent s3 else stats_persistent s3 + 1)\<rparr>"
            by (simp_all add: monitor_def)
          with b act True show ?thesis by (simp add: same_base_def)
        next
          case (Inl e)
          have nreg: "\<not> hasRegistry s (relayId0 s)"
            using monitorRelay_registry [of qs s2] mr Inl reg by simp
          let ?s4 = "log Err ''Error on relay subscription (%s)'' [sub_id qs] s3"
          from m o \<open>ro = Inr t\<close> t d dsubs sm True mr Inl
          have "r = None" and
            "s' = ?s4\<lparr>subs := (subs ?s4)(sub_id qs \<mapsto>
                           \<lparr>descriptor = qs, sendersControl = sc, messageControl = mc,
                            originSubs = osubs, destinationSubs = dsubs, relaySub = None\<rparr>),
                        stats_ephemeral :=
                          (if ephemeral qs then stats_ephemeral ?s4 + 1 else stats_ephemeral ?s4),
                        stats_persistent :=
                          (if ephemeral qs then stats_persistent ?s4
                           else stats_persistent ?s4 + 1)\<rparr>"
            by (simp_all add: monitor_def)
          with b nreg show ?thesis by (simp add: same_base_def log_def)
        qed
      qed
    qed
  qed
qed

lemma monitor_db: "db (snd (monitor qs s)) = db s"
  using monitor_result [of qs s "fst (monitor qs s)" "snd (monitor qs s)"] by simp

subsection \<open>Subscribing\<close>

lemma subscribe_db_ephemeral:
  assumes "ephemeral qs"
  shows "db (snd (subscribe qs s)) = db s"
proof -
  obtain r s1 where m: "monitor qs s = (r, s1)" by (cases "monitor qs s")
  have "db s1 = db s" using monitor_db [of qs s] m by simp
  with assms m show ?thesis
    by (cases r) (simp_all add: subscribe_def log_def)
qed

lemma subscribe_db_persistent:
  assumes "\<not> ephemeral qs" "\<not> db_rejects s"
    "\<not> (maxEphemeral s \<le> stats_ephemeral s \<or> maxPersistent s \<le> stats_persistent s)"
  shows "db (snd (subscribe qs s)) = (db s)(sub_id qs \<mapsto> qs)"
proof -
  let ?s0 = "db_insert qs s"
  obtain r s1 where m: "monitor qs ?s0 = (r, s1)" by (cases "monitor qs ?s0")
  have "db s1 = (db s)(sub_id qs \<mapsto> qs)"
    using monitor_db [of qs ?s0] m by (simp add: db_insert_def)
  with assms m show ?thesis
    by (cases r) (simp_all add: subscribe_def log_def)
qed

lemma subscribe_accepted:
  assumes "subscribe qs s = (None, s')"
  shows "\<not> (maxEphemeral s \<le> stats_ephemeral s \<or> maxPersistent s \<le> stats_persistent s)"
    and "\<not> ephemeral qs \<Longrightarrow> \<not> db_rejects s"
  using assms by (auto simp add: subscribe_def split: if_splits)

lemma subscribe_relay:
  assumes "subscribe qs s = (None, s')"
  shows "\<exists>h. subs s' (sub_id qs) = Some h \<and> descriptor h = qs \<and>
             (relaySub h \<noteq> None \<longrightarrow> shouldMonitorRelay qs s') \<and>
             (hasRegistry s (relayId0 s) \<and> shouldMonitorRelay qs s' \<longrightarrow> relaySub h \<noteq> None) \<and>
             (\<forall>x. relaySub h = Some x \<longrightarrow> sub x \<in> active s')"
proof -
  let ?s0 = "if ephemeral qs then s else db_insert qs s"
  obtain r s1 where m: "monitor qs ?s0 = (r, s1)" by (cases "monitor qs ?s0")
  from assms m have r: "r = None"
    and s': "s' = log Info ''[%s] new subscription: %j'' [origin qs, sub_id qs] s1"
    by (auto simp add: subscribe_def split: if_splits option.splits)
  have reg: "hasRegistry ?s0 (relayId0 ?s0) = hasRegistry s (relayId0 s)"
    and rel0: "isRelay ?s0 = isRelay s"
    by (simp_all add: relayId0_def db_insert_def)
  from monitor_result [OF m] r obtain h where
    h: "subs s1 (sub_id qs) = Some h" "descriptor h = qs"
      "relaySub h \<noteq> None \<longrightarrow> shouldMonitorRelay qs ?s0"
      "hasRegistry ?s0 (relayId0 ?s0) \<and> shouldMonitorRelay qs ?s0 \<longrightarrow> relaySub h \<noteq> None"
      "\<forall>x. relaySub h = Some x \<longrightarrow> sub x \<in> active s1"
    and rel: "isRelay s1 = isRelay ?s0"
    by blast
  have "isRelay s' = isRelay ?s0" using rel s' by (simp add: log_def)
  then have "shouldMonitorRelay qs s' = shouldMonitorRelay qs ?s0"
    by (rule shouldMonitorRelay_isRelay)
  with h reg s' show ?thesis by (simp add: log_def)
qed

subsection \<open>Updating the events\<close>

lemma updateEvents_relay:
  assumes h: "subs s i = Some h" and u: "updateEvents i s = (r, s2)"
  shows "r = None \<and>
         (\<exists>h'. subs s2 i = Some h' \<and> descriptor h' = descriptor h \<and>
            (relaySub h' \<noteq> None \<longrightarrow> shouldMonitorRelay (descriptor h) s2) \<and>
            (hasRegistry s (relayId0 s) \<and> shouldMonitorRelay (descriptor h) s2 \<longrightarrow>
               relaySub h' \<noteq> None) \<and>
            (relaySub h = None \<and> hasRegistry s (relayId0 s) \<and>
             shouldMonitorRelay (descriptor h) s \<longrightarrow>
               (\<exists>x. relaySub h' = Some x \<and> sub x \<in> active s2)) \<and>
            (\<forall>x. relaySub h = Some x \<and> \<not> shouldMonitorRelay (descriptor h) s \<longrightarrow>
               relaySub h' = None \<and> sub x \<notin> active s2))"
proof -
  consider (create) "shouldMonitorRelay (descriptor h) s" "relaySub h = None"
    | (remove) x where "\<not> shouldMonitorRelay (descriptor h) s" "relaySub h = Some x"
    | (keep) x where "shouldMonitorRelay (descriptor h) s" "relaySub h = Some x"
    | (none) "\<not> shouldMonitorRelay (descriptor h) s" "relaySub h = None"
    by (cases "relaySub h") auto
  then show ?thesis
  proof cases
    case create
    obtain rr s1 where mr: "monitorRelay (descriptor h) s = (rr, s1)"
      by (cases "monitorRelay (descriptor h) s")
    have b: "same_base s s1" using same_base_monitorRelay [of s "descriptor h"] mr by simp
    show ?thesis
    proof (cases rr)
      case (Inr x)
      have act: "sub x \<in> active s1"
        using monitorRelay_Inr [of "descriptor h" s x s1] mr Inr by simp
      from h u create mr Inr have r: "r = None"
        and s2: "s2 = s1\<lparr>subs := (subs s1)(i \<mapsto> h\<lparr>relaySub := Some x\<rparr>)\<rparr>"
        by (simp_all add: updateEvents_def)
      have "isRelay s2 = isRelay s" using s2 b by (simp add: same_base_def)
      from shouldMonitorRelay_isRelay [OF this, of "descriptor h"] create r s2 act
      show ?thesis by simp
    next
      case (Inl e)
      have nreg: "\<not> hasRegistry s (relayId0 s)"
        using monitorRelay_registry [of "descriptor h" s] mr Inl by simp
      from h u create mr Inl have r: "r = None"
        and s2: "s2 = log Err ''Error on relay subscription (%s)'' [i] s1"
        by (simp_all add: updateEvents_def)
      have "subs s2 i = Some h" using s2 b h by (simp add: same_base_def log_def)
      with r create nreg show ?thesis by simp
    qed
  next
    case remove
    from h u remove have r: "r = None"
      and s2: "s2 = (rx_unsubscribe (sub x) s)\<lparr>subs := (subs s)(i \<mapsto> h\<lparr>relaySub := None\<rparr>)\<rparr>"
      by (simp_all add: updateEvents_def)
    have "isRelay s2 = isRelay s" using s2 by (simp add: rx_unsubscribe_def)
    from shouldMonitorRelay_isRelay [OF this, of "descriptor h"] remove r s2
    show ?thesis by (simp add: rx_unsubscribe_def)
  next
    case keep
    from h u keep have "r = None" "s2 = s" by (simp_all add: updateEvents_def)
    with h keep show ?thesis by simp
  next
    case none
    from h u none have "r = None" "s2 = s" by (simp_all add: updateEvents_def)
    with h none show ?thesis by simp
  qed
qed

subsection \<open>The concrete switchboard\<close>

lemmas switchboard_defs =
  subscribe_def monitor_def monitorOrigins_def monitorDestinations_def monitorRelay_def
  shouldMonitorRelay_def rx_subscribe_def rx_unsubscribe_def unsubscribe_each_def log_def
  new_Switchboard_def sendersCriteria_def messageCriteria_def relayId0_def db_insert_def
  Let_def

lemma subscribe_sub1: "fst (subscribe sub1 sb0) = None"
  by (simp add: sb0_def sub1_def ingress0_def switchboard_defs)

lemma sb1_fields:
  "subs sb1 ''s1'' = Some handler1"
  "active sb1 = {0, 1, 2, 3}"
  "db sb1 ''s1'' = Some sub1"
  "cleared sb1 = []"
  "notified sb1 = []"
  "\<not> db_rejects sb1"
  "\<not> engine_rejects sb1"
  by (auto simp add: sb1_def sb0_def sub1_def handler1_def ingress0_def switchboard_defs)

lemma sb1_unknown: "subs sb1 ''s9'' = None"
  by (simp add: sb1_def sb0_def sub1_def ingress0_def switchboard_defs)

lemma sb1_no_relayed:
  "subs (updateSubscription sub1_no_relayed sb1) ''s1'' =
     Some (handler1\<lparr>descriptor := sub1_no_relayed\<rparr>)"
  by (simp add: updateSubscription_def sb1_fields sub1_no_relayed_def sub1_def)

lemma subscribe_unknown_dest:
  "fst (subscribe sub1_unknown_dest sb0) =
     Some (Error ''Missing distributed consumer for chain=urn:ocn:polkadot:9999'')"
  "subs (snd (subscribe sub1_unknown_dest sb0)) = Map.empty"
  "active (snd (subscribe sub1_unknown_dest sb0)) = {}"
  by (auto simp add: sub1_unknown_dest_def sb0_def sub1_def ingress0_def switchboard_defs)

lemma sb1_ingress:
  "isRelay sb1 = (\<lambda>c. c = ''urn:ocn:polkadot:0'')"
  "relayIds sb1 = [''urn:ocn:polkadot:0'']"
  "hasRegistry sb1 ''urn:ocn:polkadot:0''"
  by (simp_all add: sb1_def sb0_def sub1_def ingress0_def switchboard_defs)

lemma sb1_removed_eq:
  "sb1_removed =
     (rx_unsubscribe 3 (updateSubscription sub1_no_relayed sb1))
       \<lparr>subs := (subs (updateSubscription sub1_no_relayed sb1))
          (''s1'' \<mapsto> handler1\<lparr>descriptor := sub1_no_relayed, relaySub := None\<rparr>)\<rparr>"
proof -
  have n: "\<not> shouldMonitorRelay sub1_no_relayed (updateSubscription sub1_no_relayed sb1)"
    by (simp add: shouldMonitorRelay_def sub1_no_relayed_def sub1_def)
  have r: "relaySub handler1 = Some \<lparr>chainId = ''urn:ocn:polkadot:1000'', sub = 3\<rparr>"
    by (simp add: handler1_def)
  show ?thesis
    by (simp add: sb1_removed_def updateEvents_def sb1_no_relayed n r)
qed

lemma sb1_restored_fields:
  "subs sb1_restored ''s1'' = Some (handler1\<lparr>relaySub := None\<rparr>)"
  "shouldMonitorRelay sub1 sb1_restored"
  "hasRegistry sb1_restored (relayId0 sb1_restored)"
  by (simp_all add: sb1_restored_def sb1_removed_eq updateSubscription_def sb1_fields
      sb1_ingress rx_unsubscribe_def shouldMonitorRelay_def relayId0_def log_def
      sub1_no_relayed_def sub1_def handler1_def)

section \<open>The claims on the criteria and the switchboard\<close>

text \<open>
  Claim C4. The fan-out hands a notification to the notifier exactly when the
  subscription it names is in the subscription map, the descriptor's events are absent,
  the wildcard or contain the notification's type, and \<open>matchSenders\<close> holds of the
  handler's current senders control and the notification's sender; then it is notified
  once, with the descriptor. In particular, once the descriptor's senders have been
  updated to a list and \<open>updateSenders\<close> has run, a notification whose signer and extra
  signers are accounts outside the list is not notified.
\<close>

theorem fanout_delivers_iff:
  "notified (onXcmWaypointReached msg s) =
     (case subs s (subscriptionId msg) of
        None \<Rightarrow> notified s
      | Some h \<Rightarrow>
          if (events (descriptor h) = EventsUndefined \<or> events (descriptor h) = EventsAny \<or>
                (\<exists>es. events (descriptor h) = EventsList es \<and> msg_type msg \<in> set es)) \<and>
             matchSenders (sendersControl h) (sender msg)
          then notified s @ [(descriptor h, msg)]
          else notified s) \<and>
   (subs s i = Some h \<and> sub_id sb = i \<and> senders sb = SendersList xs \<and>
    subscriptionId m = i \<and> sender m = Some x \<and> signer x = accountId a pk \<and>
    map address (extraSigners x) = map (\<lambda>p. accountId (fst p) (snd p)) ps \<and>
    a \<notin> set xs \<and> pk \<notin> set xs \<and> (\<forall>p \<in> set ps. fst p \<notin> set xs \<and> snd p \<notin> set xs) \<longrightarrow>
      notified (onXcmWaypointReached m (snd (updateSenders i (updateSubscription sb s)))) =
        notified s)"
  using waypoint_notified [of msg s] senders_update_suppresses [of s i h sb xs m x a pk ps]
  by blast

theorem fanout_delivers_iff_witness:
  "notified (onXcmWaypointReached msgB sb1) = [(sub1, msgB)] \<and>
   notified (onXcmWaypointReached msgB
      (snd (updateSenders ''s1'' (updateSubscription sub1_acctA sb1)))) = []"
proof -
  have acct: "signer xtB = accountId ''acctB'' ''0xB0''"
    "map address (extraSigners xtB) =
       map (\<lambda>p. accountId (fst p) (snd p)) [(''acctC'', ''0xC0'')]"
    by (simp_all add: xtB_def)
  note t = fanout_delivers_iff [where msg = msgB and s = sb1 and i = "''s1''" and h = handler1
      and sb = sub1_acctA and xs = "[''acctA'']" and m = msgB and x = xtB
      and a = "''acctB''" and pk = "''0xB0''" and ps = "[(''acctC'', ''0xC0'')]"]
  have "notified (onXcmWaypointReached msgB sb1) = [(sub1, msgB)]"
    using t by (simp add: sb1_fields msgB_def handler1_def sub1_def matchSenders_def)
  moreover have "notified (onXcmWaypointReached msgB
      (snd (updateSenders ''s1'' (updateSubscription sub1_acctA sb1)))) = []"
    using t acct by (simp add: sb1_fields msgB_def sub1_acctA_def sub1_def)
  ultimately show ?thesis by simp
qed

text \<open>
  Claim C5, as stated, fails in two places. When \<open>clearPendingStates\<close> rejects,
  \<open>unsubscribe\<close> of the persistent subscription \<open>s1\<close> completes, the rejection caught
  and logged, and the record of \<open>s1\<close> is still in the store. And \<open>unsubscribe\<close> of
  \<open>toString\<close>, which is no subscription, logs an error, not the warning.
\<close>

theorem unsubscribe_keeps_record_counterexample:
  "subs (sb1\<lparr>engine_rejects := True\<rparr>) ''s1'' = Some handler1 \<and>
   ephemeral (descriptor handler1) = False \<and>
   db (unsubscribe ''s1'' (sb1\<lparr>engine_rejects := True\<rparr>)) ''s1'' = Some sub1 \<and>
   subs sb1 ''toString'' = None \<and>
   unsubscribe ''toString'' sb1 =
     sb1\<lparr>logs := logs sb1 @ [Log Err ''Error unsubscribing %s'' [''toString'']]\<rparr>"
proof -
  have h: "subs (sb1\<lparr>engine_rejects := True\<rparr>) ''s1'' = Some handler1"
    by (simp add: sb1_fields)
  have d: "db (unsubscribe ''s1'' (sb1\<lparr>engine_rejects := True\<rparr>)) ''s1'' = Some sub1"
    using unsubscribe_db(2) [OF h] by (simp add: sb1_fields)
  have n: "subs sb1 ''toString'' = None"
    by (simp add: sb1_def sb0_def sub1_def ingress0_def switchboard_defs)
  have "''toString'' \<in> set Object_prototype_members"
    by (simp add: Object_prototype_members_def)
  from unsubscribe_inherited [OF n this] h d n show ?thesis
    by (simp add: handler1_def sub1_def)
qed

text \<open>
  Claim C5, amended. For a subscription in the map, \<open>unsubscribe\<close> leaves none of its
  origin, destination and relay observers live, has called \<open>clearPendingStates\<close> with
  the id, and has removed the handler, so that whatever the engine emits afterwards, no
  further notification for the id reaches the notifier. Its record is gone from the
  store when the subscription is not ephemeral and neither \<open>clearPendingStates\<close> nor
  the store rejects; when the subscription is ephemeral or one of the two rejects, the
  store is left as it was. For an id that is not in the map and names no member of
  \<open>Object.prototype\<close>, \<open>unsubscribe\<close> only logs a warning, however often it is called.
\<close>

theorem unsubscribe_detaches_and_silences:
  "(subs s i = Some h \<longrightarrow>
      active (unsubscribe i s) \<inter>
        sub ` (set (originSubs h) \<union> set (destinationSubs h) \<union> set_option (relaySub h)) = {} \<and>
      cleared (unsubscribe i s) = cleared s @ [i] \<and>
      subs (unsubscribe i s) i = None \<and>
      (\<not> ephemeral (descriptor h) \<and> \<not> engine_rejects s \<and> \<not> db_rejects s \<longrightarrow>
         db (unsubscribe i s) i = None) \<and>
      (ephemeral (descriptor h) \<or> engine_rejects s \<or> db_rejects s \<longrightarrow>
         db (unsubscribe i s) = db s) \<and>
      filter (\<lambda>n. subscriptionId (snd n) = i)
          (notified (fold onXcmWaypointReached msgs (unsubscribe i s))) =
        filter (\<lambda>n. subscriptionId (snd n) = i) (notified s)) \<and>
   (subs s i = None \<and> i \<notin> set Object_prototype_members \<longrightarrow>
      unsubscribe i s =
        s\<lparr>logs := logs s @ [Log Warn ''unsubscribe from a non-existent subscription %s'' [i]]\<rparr> \<and>
      unsubscribe i (unsubscribe i s) =
        s\<lparr>logs := logs s @
          [Log Warn ''unsubscribe from a non-existent subscription %s'' [i],
           Log Warn ''unsubscribe from a non-existent subscription %s'' [i]]\<rparr>)"
proof (intro conjI impI)
  assume h: "subs s i = Some h"
  show "active (unsubscribe i s) \<inter>
        sub ` (set (originSubs h) \<union> set (destinationSubs h) \<union> set_option (relaySub h)) = {}"
    using unsubscribe_fields(4) [OF h] by auto
  show "cleared (unsubscribe i s) = cleared s @ [i]" by (rule unsubscribe_fields(2) [OF h])
  show gone: "subs (unsubscribe i s) i = None" by (simp add: unsubscribe_fields(1) [OF h])
  show "filter (\<lambda>n. subscriptionId (snd n) = i)
          (notified (fold onXcmWaypointReached msgs (unsubscribe i s))) =
        filter (\<lambda>n. subscriptionId (snd n) = i) (notified s)"
    using fanout_unknown_subscription [OF gone, of msgs] unsubscribe_fields(3) [OF h] by simp
next
  assume h: "subs s i = Some h"
    and "\<not> ephemeral (descriptor h) \<and> \<not> engine_rejects s \<and> \<not> db_rejects s"
  then show "db (unsubscribe i s) i = None" using unsubscribe_db(1) [OF h] by simp
next
  assume h: "subs s i = Some h"
    and "ephemeral (descriptor h) \<or> engine_rejects s \<or> db_rejects s"
  then show "db (unsubscribe i s) = db s" using unsubscribe_db(2) [OF h] by simp
next
  assume n: "subs s i = None \<and> i \<notin> set Object_prototype_members"
  show u: "unsubscribe i s =
        s\<lparr>logs := logs s @ [Log Warn ''unsubscribe from a non-existent subscription %s'' [i]]\<rparr>"
    using n by (simp add: unsubscribe_unknown)
  have "subs (unsubscribe i s) i = None" using n u by simp
  from unsubscribe_unknown [OF this] u n
  show "unsubscribe i (unsubscribe i s) =
        s\<lparr>logs := logs s @
          [Log Warn ''unsubscribe from a non-existent subscription %s'' [i],
           Log Warn ''unsubscribe from a non-existent subscription %s'' [i]]\<rparr>"
    by simp
qed

theorem unsubscribe_detaches_and_silences_witness:
  "subs sb1 ''s1'' = Some handler1 \<and>
   active sb1 = {0, 1, 2, 3} \<and>
   active (unsubscribe ''s1'' sb1) \<inter> {0, 1, 2, 3} = {} \<and>
   cleared (unsubscribe ''s1'' sb1) = [''s1''] \<and>
   subs (unsubscribe ''s1'' sb1) ''s1'' = None \<and>
   db sb1 ''s1'' = Some sub1 \<and>
   db (unsubscribe ''s1'' sb1) ''s1'' = None \<and>
   db (unsubscribe ''s1'' (sb1\<lparr>db_rejects := True\<rparr>)) = db sb1 \<and>
   filter (\<lambda>n. subscriptionId (snd n) = ''s1'')
     (notified (fold onXcmWaypointReached [msgB, msgB] (unsubscribe ''s1'' sb1))) = [] \<and>
   subs sb1 ''s9'' = None \<and>
   ''s9'' \<notin> set Object_prototype_members \<and>
   unsubscribe ''s9'' sb1 =
     sb1\<lparr>logs := logs sb1 @
       [Log Warn ''unsubscribe from a non-existent subscription %s'' [''s9'']]\<rparr>"
  using unsubscribe_detaches_and_silences [of sb1 "''s1''" handler1 "[msgB, msgB]"]
    unsubscribe_detaches_and_silences [of "sb1\<lparr>db_rejects := True\<rparr>" "''s1''" handler1]
    unsubscribe_detaches_and_silences [of sb1 "''s9''"]
  by (simp add: sb1_fields sb1_unknown handler1_def sub1_def Object_prototype_members_def)

text \<open>
  Claim C6. \<open>subscribe\<close> throws the \<open>SubscribeError\<close> with code
  \<open>TOO_MANY_SUBSCRIBERS\<close>, changing nothing, when the ephemeral or the persistent count
  has reached its cap, and both caps default to 10000. When \<open>subscribe\<close> does not throw,
  a descriptor that is not ephemeral is in the store; an ephemeral one never changes the
  store. The insertion comes before monitoring: when the store rejects it nothing has
  been set up, and once the store has accepted it the descriptor is stored whatever
  monitoring does next.
\<close>

theorem subscribe_caps_and_persistence:
  "(maxEphemeral s \<le> stats_ephemeral s \<or> maxPersistent s \<le> stats_persistent s \<longrightarrow>
      subscribe qs s =
        (Some (SubscribeError TOO_MANY_SUBSCRIBERS ''too many subscriptions''), s)) \<and>
   maxEphemeral (new_Switchboard ctx
      \<lparr>subscriptionMaxPersistent = None, subscriptionMaxEphemeral = None\<rparr>) = 10000 \<and>
   maxPersistent (new_Switchboard ctx
      \<lparr>subscriptionMaxPersistent = None, subscriptionMaxEphemeral = None\<rparr>) = 10000 \<and>
   (fst (subscribe qs s) = None \<and> \<not> ephemeral qs \<longrightarrow>
      db (snd (subscribe qs s)) (sub_id qs) = Some qs) \<and>
   (ephemeral qs \<longrightarrow> db (snd (subscribe qs s)) = db s) \<and>
   (\<not> ephemeral qs \<and> db_rejects s \<longrightarrow>
      fst (subscribe qs s) \<noteq> None \<and> snd (subscribe qs s) = s) \<and>
   (\<not> ephemeral qs \<and> \<not> db_rejects s \<and>
    stats_ephemeral s < maxEphemeral s \<and> stats_persistent s < maxPersistent s \<longrightarrow>
      db (snd (subscribe qs s)) (sub_id qs) = Some qs)"
proof (intro conjI impI)
  assume "maxEphemeral s \<le> stats_ephemeral s \<or> maxPersistent s \<le> stats_persistent s"
  then show "subscribe qs s =
        (Some (SubscribeError TOO_MANY_SUBSCRIBERS ''too many subscriptions''), s)"
    by (simp add: subscribe_def)
next
  show "maxEphemeral (new_Switchboard ctx
      \<lparr>subscriptionMaxPersistent = None, subscriptionMaxEphemeral = None\<rparr>) = 10000"
    by (simp add: new_Switchboard_def)
  show "maxPersistent (new_Switchboard ctx
      \<lparr>subscriptionMaxPersistent = None, subscriptionMaxEphemeral = None\<rparr>) = 10000"
    by (simp add: new_Switchboard_def)
next
  assume a: "fst (subscribe qs s) = None \<and> \<not> ephemeral qs"
  then have "subscribe qs s = (None, snd (subscribe qs s))" by (cases "subscribe qs s") simp
  from subscribe_accepted [OF this] a subscribe_db_persistent [of qs s]
  show "db (snd (subscribe qs s)) (sub_id qs) = Some qs" by simp
next
  assume "ephemeral qs"
  then show "db (snd (subscribe qs s)) = db s" by (rule subscribe_db_ephemeral)
next
  assume "\<not> ephemeral qs \<and> db_rejects s"
  then show "fst (subscribe qs s) \<noteq> None" "snd (subscribe qs s) = s"
    by (simp_all add: subscribe_def)
next
  assume "\<not> ephemeral qs \<and> \<not> db_rejects s \<and>
    stats_ephemeral s < maxEphemeral s \<and> stats_persistent s < maxPersistent s"
  with subscribe_db_persistent [of qs s]
  show "db (snd (subscribe qs s)) (sub_id qs) = Some qs" by simp
qed

theorem subscribe_caps_and_persistence_witness:
  "subscribe sub1 (sb0\<lparr>stats_ephemeral := 10000\<rparr>) =
     (Some (SubscribeError TOO_MANY_SUBSCRIBERS ''too many subscriptions''),
      sb0\<lparr>stats_ephemeral := 10000\<rparr>) \<and>
   maxEphemeral sb0 = 10000 \<and> maxPersistent sb0 = 10000 \<and>
   fst (subscribe sub1 sb0) = None \<and>
   db (snd (subscribe sub1 sb0)) ''s1'' = Some sub1 \<and>
   db (snd (subscribe (sub1\<lparr>ephemeral := True\<rparr>) sb0)) = db sb0 \<and>
   fst (subscribe sub1 (sb0\<lparr>db_rejects := True\<rparr>)) \<noteq> None \<and>
   snd (subscribe sub1 (sb0\<lparr>db_rejects := True\<rparr>)) = sb0\<lparr>db_rejects := True\<rparr> \<and>
   fst (subscribe sub1_unknown_dest sb0) =
     Some (Error ''Missing distributed consumer for chain=urn:ocn:polkadot:9999'') \<and>
   subs (snd (subscribe sub1_unknown_dest sb0)) = Map.empty \<and>
   db (snd (subscribe sub1_unknown_dest sb0)) ''s1'' = Some sub1_unknown_dest"
proof -
  have u: "db (snd (subscribe sub1_unknown_dest sb0)) ''s1'' = Some sub1_unknown_dest"
    using subscribe_caps_and_persistence [of sb0 sub1_unknown_dest ingress0]
    by (simp add: sb0_def sub1_def sub1_unknown_dest_def new_Switchboard_def)
  show ?thesis
  using subscribe_caps_and_persistence [of "sb0\<lparr>stats_ephemeral := 10000\<rparr>" sub1 ingress0]
    subscribe_caps_and_persistence [of sb0 sub1 ingress0]
    subscribe_caps_and_persistence [of sb0 "sub1\<lparr>ephemeral := True\<rparr>" ingress0]
    subscribe_caps_and_persistence [of "sb0\<lparr>db_rejects := True\<rparr>" sub1 ingress0]
    subscribe_sub1 subscribe_unknown_dest u
  by (simp add: sb0_def sub1_def new_Switchboard_def)
qed

text \<open>
  Claim C7, as stated, fails where the relay observer cannot be set up: the error is
  caught and logged. On the switchboard whose ingress consumer cannot give the registry
  of the relay chain, \<open>subscribe\<close> of \<open>s1\<close> does not throw and \<open>#shouldMonitorRelay\<close>
  holds of its descriptor, yet the handler has no relay observer, and has none after
  \<open>updateEvents\<close> either.
\<close>

theorem relay_required_but_absent_counterexample:
  "fst (subscribe sub1 sb0_no_relay_registry) = None \<and>
   subs (snd (subscribe sub1 sb0_no_relay_registry)) ''s1'' = Some handler1_no_relay \<and>
   descriptor handler1_no_relay = sub1 \<and>
   relaySub handler1_no_relay = None \<and>
   shouldMonitorRelay sub1 (snd (subscribe sub1 sb0_no_relay_registry)) \<and>
   fst (updateEvents ''s1'' (snd (subscribe sub1 sb0_no_relay_registry))) = None \<and>
   subs (snd (updateEvents ''s1'' (snd (subscribe sub1 sb0_no_relay_registry)))) ''s1'' =
     Some handler1_no_relay"
  by (simp add: sb0_no_relay_registry_def ingress_no_relay_registry_def ingress0_def
      handler1_no_relay_def handler1_def sub1_def updateEvents_def switchboard_defs)

text \<open>
  Claim C7, amended. \<open>#shouldMonitorRelay\<close> holds exactly when the events are absent,
  the wildcard or contain \<open>Relayed\<close>, the origin is not a relay chain and some
  destination is not a relay chain. After a \<open>subscribe\<close> that did not throw, and after
  \<open>updateEvents\<close> on a known id, the handler has a relay observer only if
  \<open>#shouldMonitorRelay\<close> holds of its descriptor, and has one whenever it holds and the
  ingress consumer gives the registry of the relay chain. \<open>updateEvents\<close> creates a live
  relay observer where one became required and the registry can be had, and
  unsubscribes and deletes the one that stopped being required.
\<close>

theorem relay_observer_iff_required:
  "(shouldMonitorRelay qs s \<longleftrightarrow>
      (events qs = EventsUndefined \<or> events qs = EventsAny \<or>
         (\<exists>es. events qs = EventsList es \<and> Relayed \<in> set es)) \<and>
      \<not> isRelay s (origin qs) \<and>
      (\<exists>d \<in> set (destinations qs). \<not> isRelay s d)) \<and>
   (subscribe qs s = (None, s') \<longrightarrow>
      (\<exists>h. subs s' (sub_id qs) = Some h \<and> descriptor h = qs \<and>
           (relaySub h \<noteq> None \<longrightarrow> shouldMonitorRelay qs s') \<and>
           (hasRegistry s (relayId0 s) \<and> shouldMonitorRelay qs s' \<longrightarrow> relaySub h \<noteq> None) \<and>
           (\<forall>x. relaySub h = Some x \<longrightarrow> sub x \<in> active s'))) \<and>
   (subs s i = Some h \<and> updateEvents i s = (r, s2) \<longrightarrow>
      r = None \<and>
      (\<exists>h'. subs s2 i = Some h' \<and> descriptor h' = descriptor h \<and>
         (relaySub h' \<noteq> None \<longrightarrow> shouldMonitorRelay (descriptor h) s2) \<and>
         (hasRegistry s (relayId0 s) \<and> shouldMonitorRelay (descriptor h) s2 \<longrightarrow>
            relaySub h' \<noteq> None) \<and>
         (relaySub h = None \<and> hasRegistry s (relayId0 s) \<and>
          shouldMonitorRelay (descriptor h) s \<longrightarrow>
            (\<exists>x. relaySub h' = Some x \<and> sub x \<in> active s2)) \<and>
         (\<forall>x. relaySub h = Some x \<and> \<not> shouldMonitorRelay (descriptor h) s \<longrightarrow>
            relaySub h' = None \<and> sub x \<notin> active s2)))"
  using shouldMonitorRelay_iff [of qs s] subscribe_relay [of qs s s']
    updateEvents_relay [of s i h r s2]
  by blast

theorem relay_observer_iff_required_witness:
  "shouldMonitorRelay sub1 sb0 \<and>
   hasRegistry sb0 (relayId0 sb0) \<and>
   subscribe sub1 sb0 = (None, sb1) \<and>
   subs sb1 ''s1'' = Some handler1 \<and>
   relaySub handler1 = Some \<lparr>chainId = ''urn:ocn:polkadot:1000'', sub = 3\<rparr> \<and>
   shouldMonitorRelay sub1 sb1 \<and>
   \<not> shouldMonitorRelay sub1_no_relayed (updateSubscription sub1_no_relayed sb1) \<and>
   fst (updateEvents ''s1'' (updateSubscription sub1_no_relayed sb1)) = None \<and>
   (\<exists>h'. subs sb1_removed ''s1'' = Some h' \<and> relaySub h' = None) \<and>
   3 \<notin> active sb1_removed \<and>
   subs sb1_restored ''s1'' = Some (handler1\<lparr>relaySub := None\<rparr>) \<and>
   shouldMonitorRelay sub1 sb1_restored \<and>
   fst (updateEvents ''s1'' sb1_restored) = None \<and>
   (\<exists>h'. subs (snd (updateEvents ''s1'' sb1_restored)) ''s1'' = Some h' \<and>
      (\<exists>x. relaySub h' = Some x \<and> sub x \<in> active (snd (updateEvents ''s1'' sb1_restored))))"
proof -
  have s: "subscribe sub1 sb0 = (None, sb1)"
    using subscribe_sub1 by (cases "subscribe sub1 sb0") (simp add: sb1_def)
  have n: "\<not> shouldMonitorRelay sub1_no_relayed (updateSubscription sub1_no_relayed sb1)"
    by (simp add: shouldMonitorRelay_def sub1_no_relayed_def sub1_def)
  have r: "relaySub handler1 = Some \<lparr>chainId = ''urn:ocn:polkadot:1000'', sub = 3\<rparr>"
    by (simp add: handler1_def)
  have y: "shouldMonitorRelay sub1 sb0" "hasRegistry sb0 (relayId0 sb0)"
    by (simp_all add: shouldMonitorRelay_def sub1_def sb0_def ingress0_def new_Switchboard_def
        relayId0_def)
  note t1 = relay_observer_iff_required [where qs = sub1 and s = sb0 and s' = sb1]
  note t2 = relay_observer_iff_required [where qs = sub1_no_relayed
      and s = "updateSubscription sub1_no_relayed sb1" and i = "''s1''"
      and h = "handler1\<lparr>descriptor := sub1_no_relayed\<rparr>"
      and r = "fst (updateEvents ''s1'' (updateSubscription sub1_no_relayed sb1))"
      and ?s2.0 = sb1_removed
      and s' = sb1, THEN conjunct2, THEN conjunct2]
  note t3 = relay_observer_iff_required [where qs = sub1 and s = sb1_restored and i = "''s1''"
      and h = "handler1\<lparr>relaySub := None\<rparr>"
      and r = "fst (updateEvents ''s1'' sb1_restored)"
      and ?s2.0 = "snd (updateEvents ''s1'' sb1_restored)"
      and s' = sb1, THEN conjunct2, THEN conjunct2]
  have a: "shouldMonitorRelay sub1 sb1"
    using t1 s r sb1_fields(1) by (auto simp add: sub1_def)
  have b: "fst (updateEvents ''s1'' (updateSubscription sub1_no_relayed sb1)) = None \<and>
   (\<exists>h'. subs sb1_removed ''s1'' = Some h' \<and> relaySub h' = None) \<and>
   3 \<notin> active sb1_removed"
    using t2 n r sb1_no_relayed by (auto simp add: sb1_removed_def)
  have d: "descriptor (handler1\<lparr>relaySub := None\<rparr>) = sub1"
    "relaySub (handler1\<lparr>relaySub := None\<rparr>) = None"
    by (simp_all add: handler1_def)
  have c: "fst (updateEvents ''s1'' sb1_restored) = None \<and>
   (\<exists>h'. subs (snd (updateEvents ''s1'' sb1_restored)) ''s1'' = Some h' \<and>
      (\<exists>x. relaySub h' = Some x \<and> sub x \<in> active (snd (updateEvents ''s1'' sb1_restored))))"
    using t3 sb1_restored_fields d by auto
  from s y r a n b c sb1_restored_fields show ?thesis by (simp add: sb1_fields)
qed

text \<open>
  Claim C8 holds of \<open>updateSubscription\<close> only. On the switchboard whose one
  subscription is \<open>s1\<close>, \<open>updateSubscription\<close> for the unknown id \<open>s9\<close> logs a warning
  and changes nothing else, while \<open>updateSenders\<close>, \<open>updateDestinations\<close> and
  \<open>updateEvents\<close> throw a \<open>TypeError\<close> and log nothing.
\<close>

theorem update_unknown_subscription_throws:
  "subs sb1 ''s9'' = None \<and>
   updateSubscription (sub1\<lparr>sub_id := ''s9''\<rparr>) sb1 =
     sb1\<lparr>logs := logs sb1 @
       [Log Warn ''trying to update an unknown subscription %s'' [''s9'']]\<rparr> \<and>
   updateSenders ''s9'' sb1 =
     (Some (TypeError ''Cannot destructure property of undefined''), sb1) \<and>
   updateDestinations ''s9'' sb1 =
     (Some (TypeError ''Cannot destructure property of undefined''), sb1) \<and>
   updateEvents ''s9'' sb1 =
     (Some (TypeError ''Cannot destructure property of undefined''), sb1)"
  by (simp add: sb1_unknown updateSubscription_def updateSenders_def updateDestinations_def
      updateEvents_def log_def sub1_def)

text \<open>
  Claim C9. \<open>sendersCriteria\<close> maps the wildcard to the empty criteria, which holds of
  every record, and a list of senders to the disjunction of the four membership tests on
  the signer's and the extra signers' \<open>id\<close> and \<open>publicKey\<close>: for an extrinsic whose
  signers are accounts it holds exactly when one of their ids or public keys is in the
  list. The empty list gives a criteria that holds of no record and admits no sender,
  and that is not the wildcard's criteria.
\<close>

theorem sendersCriteria_shape:
  "sendersCriteria SendersAny = MatchAny \<and>
   (\<forall>d. test (sendersCriteria SendersAny) d) \<and>
   sendersCriteria (SendersList xs) =
     Or [In ''extrinsic.signer.id'' xs,
         In ''extrinsic.signer.publicKey'' xs,
         In ''extrinsic.extraSigners.id'' xs,
         In ''extrinsic.extraSigners.publicKey'' xs] \<and>
   (signer x = accountId a pk \<and>
    map address (extraSigners x) = map (\<lambda>p. accountId (fst p) (snd p)) ps \<longrightarrow>
      (matchSenders (sendersCriteria (SendersList xs)) (Some x) \<longleftrightarrow>
         a \<in> set xs \<or> pk \<in> set xs \<or> (\<exists>p \<in> set ps. fst p \<in> set xs \<or> snd p \<in> set xs))) \<and>
   (\<forall>d. \<not> test (sendersCriteria (SendersList [])) d) \<and>
   (\<forall>xt. \<not> matchSenders (sendersCriteria (SendersList [])) xt) \<and>
   sendersCriteria (SendersList []) \<noteq> sendersCriteria SendersAny"
proof -
  have none: "\<not> test (sendersCriteria (SendersList [])) d" for d
    by (simp add: sendersCriteria_def in_empty del: split_path.simps)
  have never: "\<not> matchSenders (sendersCriteria (SendersList [])) xt" for xt
    using none by (cases xt) (simp_all add: matchSenders_def)
  have shape: "sendersCriteria SendersAny = MatchAny \<and>
    (\<forall>d. test (sendersCriteria SendersAny) d) \<and>
    sendersCriteria (SendersList xs) =
     Or [In ''extrinsic.signer.id'' xs,
         In ''extrinsic.signer.publicKey'' xs,
         In ''extrinsic.extraSigners.id'' xs,
         In ''extrinsic.extraSigners.publicKey'' xs] \<and>
    sendersCriteria (SendersList []) \<noteq> sendersCriteria SendersAny"
    by (simp add: sendersCriteria_def)
  from none never shape matchSenders_list_iff [of x a pk ps xs] show ?thesis by blast
qed

theorem sendersCriteria_shape_witness:
  "sendersCriteria (SendersList [''acctC'']) =
     Or [In ''extrinsic.signer.id'' [''acctC''],
         In ''extrinsic.signer.publicKey'' [''acctC''],
         In ''extrinsic.extraSigners.id'' [''acctC''],
         In ''extrinsic.extraSigners.publicKey'' [''acctC'']] \<and>
   matchSenders (sendersCriteria (SendersList [''acctC''])) (Some xtB) \<and>
   \<not> matchSenders (sendersCriteria (SendersList [])) (Some xtB) \<and>
   matchSenders (sendersCriteria SendersAny) (Some xtB) \<and>
   sendersCriteria (SendersList []) \<noteq> sendersCriteria SendersAny"
proof -
  note t = sendersCriteria_shape [where xs = "[''acctC'']" and x = xtB and a = "''acctB''"
      and pk = "''0xB0''" and ps = "[(''acctC'', ''0xC0'')]"]
  have acct: "signer xtB = accountId ''acctB'' ''0xB0'' \<and>
    map address (extraSigners xtB) =
       map (\<lambda>p. accountId (fst p) (snd p)) [(''acctC'', ''0xC0'')]"
    by (simp add: xtB_def)
  have shape: "sendersCriteria (SendersList [''acctC'']) =
     Or [In ''extrinsic.signer.id'' [''acctC''],
         In ''extrinsic.signer.publicKey'' [''acctC''],
         In ''extrinsic.extraSigners.id'' [''acctC''],
         In ''extrinsic.extraSigners.publicKey'' [''acctC'']]"
    using t by (elim conjE)
  have any: "matchSenders (sendersCriteria SendersAny) (Some xtB)"
    using t [THEN conjunct2, THEN conjunct1]
    by (simp only: matchSenders_def option.case)
  have "matchSenders (sendersCriteria (SendersList [''acctC''])) (Some xtB) \<longleftrightarrow>
      ''acctB'' \<in> set [''acctC''] \<or> ''0xB0'' \<in> set [''acctC''] \<or>
      (\<exists>p \<in> set [(''acctC'', ''0xC0'')]. fst p \<in> set [''acctC''] \<or> snd p \<in> set [''acctC''])"
    using t [THEN conjunct2, THEN conjunct2, THEN conjunct2, THEN conjunct1] acct
    by (rule mp)
  then have lst: "matchSenders (sendersCriteria (SendersList [''acctC''])) (Some xtB)"
    by simp
  have never: "\<not> matchSenders (sendersCriteria (SendersList [])) (Some xtB)"
    using t [THEN conjunct2, THEN conjunct2, THEN conjunct2, THEN conjunct2, THEN conjunct2,
        THEN conjunct1]
    by (rule spec)
  have differ: "sendersCriteria (SendersList []) \<noteq> sendersCriteria SendersAny"
    using t by (elim conjE)
  from shape lst never any differ show ?thesis by (intro conjI)
qed

text \<open>
  Claim C10. \<open>matchSenders\<close> is false of an undefined sender whatever the query, so the
  fan-out notifies nothing for a notification without a sender, also when the
  subscription's senders control is the wildcard's criteria.
\<close>

theorem unknown_sender_never_delivered:
  "matchSenders query None = False \<and>
   (sender msg = None \<longrightarrow>
      notified (onXcmWaypointReached msg s) = notified s \<and>
      notified (onXcmWaypointReached msg
         (s\<lparr>subs := (subs s)(subscriptionId msg \<mapsto>
              h\<lparr>sendersControl := sendersCriteria SendersAny\<rparr>)\<rparr>)) = notified s)"
  by (simp add: waypoint_notified matchSenders_def split: option.splits)

theorem unknown_sender_never_delivered_witness:
  "sender (msgB\<lparr>sender := None\<rparr>) = None \<and>
   subs sb1 ''s1'' = Some handler1 \<and> sendersControl handler1 = MatchAny \<and>
   notified (onXcmWaypointReached (msgB\<lparr>sender := None\<rparr>) sb1) = notified sb1 \<and>
   notified (onXcmWaypointReached msgB sb1) = notified sb1 @ [(sub1, msgB)]"
proof -
  have "notified (onXcmWaypointReached (msgB\<lparr>sender := None\<rparr>) sb1) = notified sb1"
    using unknown_sender_never_delivered [of MatchAny "msgB\<lparr>sender := None\<rparr>" sb1 handler1]
    by simp
  moreover have "notified (onXcmWaypointReached msgB sb1) = notified sb1 @ [(sub1, msgB)]"
    by (simp add: waypoint_notified sb1_fields msgB_def handler1_def sub1_def matchSenders_def)
  ultimately show ?thesis by (simp add: sb1_fields handler1_def)
qed

end
